theory Spec2Isabelle
  imports Main
begin

section \<open>JavaScript values\<close>

text \<open>
  A thrown JavaScript exception, with its \<open>message\<close>. The skill throws plain
  \<open>Error\<close>s; reading a property of \<open>undefined\<close> throws a \<open>TypeError\<close>.
\<close>

datatype error = Error (message: string) | TypeError (message: string)

type_synonym address = string

text \<open>
  The decimal rendering of a non-negative integer: \<open>BigInt.prototype.toString\<close>, and
  what a template literal prints for an integral \<open>Number\<close> below \<open>10^21\<close>.
\<close>

definition digit_char :: "nat \<Rightarrow> char" where
  "digit_char d = ''0123456789'' ! d"

function decimal :: "nat \<Rightarrow> string" where
  "decimal n = (if n < 10 then [digit_char n] else decimal (n div 10) @ [digit_char (n mod 10)])"
  by pat_completeness auto
termination
  by (relation "measure (\<lambda>n. n)") auto

declare decimal.simps [simp del]

text \<open>JavaScript truthiness of a value that is a string or \<open>undefined\<close> (\<open>None\<close>).\<close>

definition truthy :: "string option \<Rightarrow> bool" where
  "truthy v = (case v of None \<Rightarrow> False | Some s \<Rightarrow> s \<noteq> [])"

text \<open>\<open>a || b\<close> on such values.\<close>

definition js_or :: "string option \<Rightarrow> string option \<Rightarrow> string option" where
  "js_or a b = (if truthy a then a else b)"

text \<open>
  \<open>xs[k]\<close> for an array literal \<open>xs\<close> and a non-negative integer key: the element,
  or \<open>undefined\<close> (\<open>None\<close>) past the end. Nothing is thrown.
\<close>

definition js_index :: "'a list \<Rightarrow> nat \<Rightarrow> 'a option" where
  "js_index xs k = (if k < length xs then Some (xs ! k) else None)"

section \<open>The remote ledger\<close>

text \<open>
  The tuples the governance contract returns (\<open>GOVERNANCE_ABI\<close>). ethers decodes every
  \<open>uintN\<close> into a non-negative \<open>BigInt\<close>, modelled as \<open>nat\<close>.
\<close>

record proposal_data =
  p_id :: nat
  p_title :: string
  p_description :: string
  p_startTime :: nat
  p_endTime :: nat
  p_yesVotes :: nat
  p_noVotes :: nat
  p_cancelled :: bool
  p_status :: nat

record result_data =
  r_ended :: bool
  r_passed :: bool
  r_yesVotes :: nat
  r_noVotes :: nat
  r_totalVotes :: nat

record tx =
  hash :: string

text \<open>
  What the node answers to each contract call: a value, or a thrown error. The first
  argument of every call is the address of the contract called; write calls also carry
  the signer's address. Within one operation of the skill no call is repeated with the
  same arguments, so answers that are functions of the arguments lose no generality.
\<close>

record remote =
  gov_proposalCount :: "address \<Rightarrow> error + nat"
  gov_getProposal :: "address \<Rightarrow> nat \<Rightarrow> error + proposal_data"
  gov_getProposalResult :: "address \<Rightarrow> nat \<Rightarrow> error + result_data"
  gov_isProposalActive :: "address \<Rightarrow> nat \<Rightarrow> error + bool"
  gov_hasUserVoted :: "address \<Rightarrow> nat \<Rightarrow> address \<Rightarrow> error + bool"
  gov_getVotingPower :: "address \<Rightarrow> address \<Rightarrow> error + nat"
  gov_vote :: "address \<Rightarrow> address \<Rightarrow> nat \<Rightarrow> bool \<Rightarrow> error + tx"
  gov_createProposal :: "address \<Rightarrow> address \<Rightarrow> string \<Rightarrow> string \<Rightarrow> error + tx"
  erc20_symbol :: "address \<Rightarrow> error + string"
  erc20_decimals :: "address \<Rightarrow> error + nat"
  erc20_balanceOf :: "address \<Rightarrow> address \<Rightarrow> error + nat"
  erc20_transfer :: "address \<Rightarrow> address \<Rightarrow> address \<Rightarrow> int \<Rightarrow> error + tx"
  tx_wait :: "tx \<Rightarrow> error + unit"

text \<open>The calls an operation makes, in the order it makes them.\<close>

datatype call =
    ProposalCount address
  | GetProposal address nat
  | GetProposalResult address nat
  | IsProposalActive address nat
  | HasUserVoted address nat address
  | GetVotingPower address address
  | Symbol address
  | Decimals address
  | BalanceOf address address
  | Vote address address nat bool
  | CreateProposal address address string string
  | Transfer address address address int
  | Wait tx
  | JsonRpcProvider "string option"

text \<open>The calls that submit a transaction to the ledger.\<close>

fun is_write :: "call \<Rightarrow> bool" where
  "is_write (Vote _ _ _ _) = True"
| "is_write (CreateProposal _ _ _ _) = True"
| "is_write (Transfer _ _ _ _) = True"
| "is_write _ = False"

section \<open>Effects\<close>

text \<open>
  The world an operation runs in: the calls made so far and the lines written with
  \<open>console.error\<close> (its two arguments). An operation takes the world and returns
  its outcome, a value or a thrown error, with the world it leaves.
\<close>

record world =
  calls :: "call list"
  console :: "(string \<times> string) list"

type_synonym 'a eff = "world \<Rightarrow> (error + 'a) \<times> world"

definition ret :: "'a \<Rightarrow> 'a eff" where
  "ret x = (\<lambda>w. (Inr x, w))"

definition throw :: "error \<Rightarrow> 'a eff" where
  "throw e = (\<lambda>w. (Inl e, w))"

definition bind_eff :: "'a eff \<Rightarrow> ('a \<Rightarrow> 'b eff) \<Rightarrow> 'b eff" where
  "bind_eff m f = (\<lambda>w. case m w of (Inl e, w') \<Rightarrow> (Inl e, w') | (Inr x, w') \<Rightarrow> f x w')"

text \<open>\<open>try { m } catch (e) { h e }\<close>\<close>

definition try_catch :: "'a eff \<Rightarrow> (error \<Rightarrow> 'a eff) \<Rightarrow> 'a eff" where
  "try_catch m h = (\<lambda>w. case m w of (Inl e, w') \<Rightarrow> h e w' | (Inr x, w') \<Rightarrow> (Inr x, w'))"

text \<open>\<open>await\<close> of one call: the call is recorded, its answer returned or thrown.\<close>

definition await :: "call \<Rightarrow> (error + 'a) \<Rightarrow> 'a eff" where
  "await c answer = (\<lambda>w. (answer, w\<lparr>calls := calls w @ [c]\<rparr>))"

text \<open>A library function that makes no call: its value is returned or its error thrown.\<close>

definition lift :: "(error + 'a) \<Rightarrow> 'a eff" where
  "lift v = (\<lambda>w. (v, w))"

definition console_error :: "string \<Rightarrow> string \<Rightarrow> unit eff" where
  "console_error a b = (\<lambda>w. (Inr (), w\<lparr>console := console w @ [(a, b)]\<rparr>))"

definition world0 :: world where
  "world0 = \<lparr>calls = [], console = []\<rparr>"

section \<open>The ethers library\<close>

text \<open>
  The functions of the \<open>ethers\<close> package the skill calls. The package is a dependency
  and not part of the repository, so the operations take it as a parameter: what holds
  for every \<open>ethers\<close> holds for the real one.
  \<^item> \<open>formatUnits v d\<close>: the decimal string of \<open>v / 10^d\<close>;
  \<^item> \<open>parseUnits s d\<close>: the integer \<open>s * 10^d\<close> of a decimal string;
  \<^item> \<open>new_Wallet k\<close>: the address of the wallet of private key \<open>k\<close>;
  \<^item> \<open>new_JsonRpcProvider url\<close>: the provider object for a URL (or \<open>undefined\<close>).
\<close>

record ethers =
  formatUnits :: "nat \<Rightarrow> nat \<Rightarrow> error + string"
  parseUnits :: "string \<Rightarrow> nat \<Rightarrow> error + int"
  new_Wallet :: "string \<Rightarrow> error + address"
  new_JsonRpcProvider :: "string option \<Rightarrow> error + unit"

section \<open>Configuration\<close>

record contracts =
  token :: address
  splitter :: address
  governance :: address
  usdc :: "address option"

record network_config =
  chainId :: nat
  name :: string
  rpc :: string
  explorer_url :: string
  network_contracts :: contracts

definition testnet :: network_config where
  "testnet = \<lparr>
     chainId = 84532,
     name = ''Base Sepolia'',
     rpc = ''https://sepolia.base.org'',
     explorer_url = ''https://sepolia.basescan.org'',
     network_contracts = \<lparr>
       token = ''0x036CbD53842c5426634e7929541eC2318f3dCF7e'',
       splitter = ''0xcf9933743D2312ea1383574907cF1A9c6fE4808d'',
       governance = ''0xa5070Da0d76F1872D1c112D6e71f3666598314DF'',
       usdc = Some ''0x036CbD53842c5426634e7929541eC2318f3dCF7e''\<rparr>\<rparr>"

text \<open>
  \<open>NETWORKS\<close> is an object literal, so \<open>NETWORKS[k]\<close> finds the own property
  \<open>testnet\<close>, and for every other key looks on \<open>Object.prototype\<close>: the names
  below are found there, and their values (functions, and the prototype itself) have no
  \<open>rpc\<close>, \<open>contracts\<close> or \<open>explorer\<close>. Any other key gives \<open>undefined\<close>.
\<close>

definition Object_prototype_keys :: "string list" where
  "Object_prototype_keys =
     [''constructor'', ''__defineGetter__'', ''__defineSetter__'', ''hasOwnProperty'',
      ''__lookupGetter__'', ''__lookupSetter__'', ''isPrototypeOf'', ''propertyIsEnumerable'',
      ''toString'', ''valueOf'', ''__proto__'', ''toLocaleString'']"

datatype networks_entry = Config network_config | Inherited

definition NETWORKS :: "string \<Rightarrow> networks_entry option" where
  "NETWORKS k =
     (if k = ''testnet'' then Some (Config testnet)
      else if k \<in> set Object_prototype_keys then Some Inherited
      else None)"

section \<open>The skill\<close>

record wallet =
  wallet_address :: address

text \<open>
  The fields of a \<open>MoltDAOSkill\<close>. \<open>contracts\<close> and \<open>explorer\<close> are
  \<open>undefined\<close> (\<open>None\<close>) when the entry found in \<open>NETWORKS\<close> has none.
  The \<open>provider\<close> field is left out: building it is the call \<open>JsonRpcProvider\<close>,
  and every later call goes to the node it stands for.
\<close>

record skill =
  network :: string
  privateKey :: "string option"
  contracts :: "contracts option"
  explorer :: "string option"
  wallet :: "wallet option"

text \<open>The constructor's \<open>config\<close> argument, and \<open>process.env.MOLTDAO_PRIVATE_KEY\<close>.\<close>

record config =
  config_network :: "string option"
  config_privateKey :: "string option"

definition new_MoltDAOSkill :: "ethers \<Rightarrow> string option \<Rightarrow> config \<Rightarrow> skill eff" where
  "new_MoltDAOSkill eth env_key cfg =
     (let network' = (case js_or (config_network cfg) (Some ''testnet'') of
                        Some n \<Rightarrow> n | None \<Rightarrow> ''testnet'');
          privateKey' = js_or (config_privateKey cfg) env_key
      in case NETWORKS network' of
           None \<Rightarrow> throw (TypeError ''Cannot read properties of undefined (reading rpc)'')
         | Some entry \<Rightarrow>
             (let url = (case entry of Config nc \<Rightarrow> Some (rpc nc) | Inherited \<Rightarrow> None)
              in bind_eff (await (JsonRpcProvider url) (new_JsonRpcProvider eth url)) (\<lambda>_.
                 let this = \<lparr>network = network',
                             privateKey = privateKey',
                             contracts = (case entry of Config nc \<Rightarrow> Some (network_contracts nc)
                                                         | Inherited \<Rightarrow> None),
                             explorer = (case entry of Config nc \<Rightarrow> Some (explorer_url nc)
                                                     | Inherited \<Rightarrow> None),
                             wallet = None\<rparr>
                 in case privateKey' of
                      None \<Rightarrow> ret this
                    | Some k \<Rightarrow>
                        if k \<noteq> [] then
                          bind_eff (lift (new_Wallet eth k)) (\<lambda>a.
                            ret (this\<lparr>wallet := Some \<lparr>wallet_address = a\<rparr>\<rparr>))
                        else ret this)))"

subsection \<open>Read functions\<close>

text \<open>
  The object \<open>getProposals\<close> pushes for one proposal. \<open>status\<close> is \<open>None\<close>
  when the array lookup gives \<open>undefined\<close>. \<open>startTime\<close> and \<open>endTime\<close> are the
  milliseconds the \<open>Date\<close> is built from; these and \<open>Number(p.id)\<close> are exact
  below \<open>2^53\<close>, and taken as exact.
\<close>

record proposal =
  proposal_id :: nat
  title :: string
  description :: string
  startTime :: nat
  endTime :: nat
  yesVotes :: string
  noVotes :: string
  cancelled :: bool
  status :: "string option"
  isActive :: bool
  passed :: bool
  totalVotes :: string

definition status_labels :: "string list" where
  "status_labels = [''Pending'', ''Active'', ''Ended'', ''Cancelled'']"

text \<open>The body of the \<open>try\<close> block of \<open>getProposals\<close>, for one \<open>i\<close>.\<close>

definition fetch_proposal :: "ethers \<Rightarrow> remote \<Rightarrow> address \<Rightarrow> nat \<Rightarrow> proposal eff" where
  "fetch_proposal eth r gov i =
     bind_eff (await (GetProposal gov i) (gov_getProposal r gov i)) (\<lambda>p.
     bind_eff (await (GetProposalResult gov i) (gov_getProposalResult r gov i)) (\<lambda>result.
     bind_eff (await (IsProposalActive gov i) (gov_isProposalActive r gov i)) (\<lambda>isActive'.
     bind_eff (lift (formatUnits eth (p_yesVotes p) 18)) (\<lambda>yes.
     bind_eff (lift (formatUnits eth (p_noVotes p) 18)) (\<lambda>no.
     bind_eff (lift (formatUnits eth (r_totalVotes result) 18)) (\<lambda>total.
       ret \<lparr>proposal_id = p_id p,
            title = p_title p,
            description = p_description p,
            startTime = p_startTime p * 1000,
            endTime = p_endTime p * 1000,
            yesVotes = yes,
            noVotes = no,
            cancelled = p_cancelled p,
            status = js_index status_labels (p_status p),
            isActive = isActive',
            passed = r_passed result,
            totalVotes = total\<rparr>))))))"

text \<open>
  The loop \<open>for (let i = 1; i <= Number(count); i++)\<close>, from \<open>i\<close> on, with the
  proposals pushed so far. Nothing escapes the \<open>catch\<close>, so the loop always ends
  with the list. \<open>Number(count)\<close> and \<open>i++\<close> are exact below \<open>2^53\<close>; the
  model takes them as exact throughout, a count no enumeration of remote reads reaches.
\<close>

function getProposals_loop ::
  "ethers \<Rightarrow> remote \<Rightarrow> address \<Rightarrow> nat \<Rightarrow> nat \<Rightarrow> proposal list \<Rightarrow> world \<Rightarrow> proposal list \<times> world"
where
  "getProposals_loop eth r gov count i proposals w =
     (if i \<le> count then
        (case fetch_proposal eth r gov i w of
           (Inr p, w') \<Rightarrow> getProposals_loop eth r gov count (i + 1) (proposals @ [p]) w'
         | (Inl e, w') \<Rightarrow>
             (case console_error (''Error fetching proposal '' @ decimal i @ '':'') (message e) w' of
                (_, w'') \<Rightarrow> getProposals_loop eth r gov count (i + 1) proposals w''))
      else (proposals, w))"
  by pat_completeness auto
termination
  by (relation "measure (\<lambda>(eth, r, gov, count, i, proposals, w). count + 1 - i)") auto

declare getProposals_loop.simps [simp del]

definition getProposals :: "ethers \<Rightarrow> skill \<Rightarrow> remote \<Rightarrow> proposal list eff" where
  "getProposals eth this r =
     (case contracts this of
        None \<Rightarrow> throw (TypeError ''Cannot read properties of undefined (reading governance)'')
      | Some cs \<Rightarrow>
          bind_eff (await (ProposalCount (governance cs)) (gov_proposalCount r (governance cs)))
            (\<lambda>count w. case getProposals_loop eth r (governance cs) count 1 [] w of
                          (proposals, w') \<Rightarrow> (Inr proposals, w')))"

text \<open>The object \<open>getVotingPower\<close> returns.\<close>

record voting_power =
  vp_address :: address
  votingPower :: string
  raw :: string

definition getVotingPower :: "ethers \<Rightarrow> skill \<Rightarrow> remote \<Rightarrow> address \<Rightarrow> voting_power eff" where
  "getVotingPower eth this r a =
     (case contracts this of
        None \<Rightarrow> throw (TypeError ''Cannot read properties of undefined (reading governance)'')
      | Some cs \<Rightarrow>
          bind_eff (await (GetVotingPower (governance cs) a) (gov_getVotingPower r (governance cs) a))
            (\<lambda>power.
          bind_eff (lift (formatUnits eth power 18)) (\<lambda>scaled.
            ret \<lparr>vp_address = a, votingPower = scaled, raw = decimal power\<rparr>)))"

definition hasVoted :: "skill \<Rightarrow> remote \<Rightarrow> nat \<Rightarrow> address \<Rightarrow> bool eff" where
  "hasVoted this r proposalId a =
     (case contracts this of
        None \<Rightarrow> throw (TypeError ''Cannot read properties of undefined (reading governance)'')
      | Some cs \<Rightarrow>
          await (HasUserVoted (governance cs) proposalId a)
                (gov_hasUserVoted r (governance cs) proposalId a))"

text \<open>
  \<open>await Promise.all([a, b, c])\<close>: the three calls are all made, in this order, before
  any answer is awaited. If one is rejected the \<open>await\<close> throws; when several are, the
  model throws the error of the first in the array.
\<close>

definition promise_all3 ::
  "call \<times> (error + 'a) \<Rightarrow> call \<times> (error + 'b) \<Rightarrow> call \<times> (error + 'c) \<Rightarrow> ('a \<times> 'b \<times> 'c) eff"
where
  "promise_all3 a b c =
     (\<lambda>w. ((case snd a of
               Inl e \<Rightarrow> Inl e
             | Inr x \<Rightarrow> (case snd b of
                          Inl e \<Rightarrow> Inl e
                        | Inr y \<Rightarrow> (case snd c of Inl e \<Rightarrow> Inl e | Inr z \<Rightarrow> Inr (x, y, z)))),
            w\<lparr>calls := calls w @ [fst a, fst b, fst c]\<rparr>))"

text \<open>
  The object \<open>getTreasury\<close> returns: \<open>token\<close> always, \<open>usdc\<close> only when it was
  assigned (\<open>None\<close>: the object has no such property). \<open>usdc\<close> is either
  \<open>{address, balance}\<close> or \<open>{error}\<close>.
\<close>

record token_info =
  token_address :: address
  token_symbol :: string
  splitterBalance :: string

datatype usdc_info = Balance address string | Failed string

record treasury =
  treasury_token :: token_info
  treasury_usdc :: "usdc_info option"

definition getTreasury :: "ethers \<Rightarrow> skill \<Rightarrow> remote \<Rightarrow> treasury eff" where
  "getTreasury eth this r =
     (case contracts this of
        None \<Rightarrow> throw (TypeError ''Cannot read properties of undefined (reading token)'')
      | Some cs \<Rightarrow>
          bind_eff (promise_all3
                      (Symbol (token cs), erc20_symbol r (token cs))
                      (Decimals (token cs), erc20_decimals r (token cs))
                      (BalanceOf (token cs) (splitter cs), erc20_balanceOf r (token cs) (splitter cs)))
            (\<lambda>(symbol', decimals', splitterBalance').
          bind_eff (lift (formatUnits eth splitterBalance' decimals')) (\<lambda>formatted.
            let result = \<lparr>treasury_token = \<lparr>token_address = token cs,
                                               token_symbol = symbol',
                                               splitterBalance = formatted\<rparr>,
                          treasury_usdc = None\<rparr>
            in if network this = ''testnet'' \<and> truthy (usdc cs) then
                 (case usdc cs of
                    None \<Rightarrow> ret result
                  | Some u \<Rightarrow>
                      try_catch
                        (bind_eff (await (BalanceOf u (governance cs))
                                         (erc20_balanceOf r u (governance cs))) (\<lambda>usdcBalance.
                         bind_eff (lift (formatUnits eth usdcBalance 6)) (\<lambda>b.
                           ret (result\<lparr>treasury_usdc := Some (Balance u b)\<rparr>))))
                        (\<lambda>e. ret (result\<lparr>treasury_usdc := Some (Failed (message e))\<rparr>)))
               else ret result)))"

subsection \<open>Write functions\<close>

text \<open>The template \<open>${this.explorer}/tx/${tx.hash}\<close>.\<close>

definition explorer_link :: "skill \<Rightarrow> tx \<Rightarrow> string" where
  "explorer_link this t =
     (case explorer this of Some e \<Rightarrow> e | None \<Rightarrow> ''undefined'') @ ''/tx/'' @ hash t"

record vote_result =
  vote_success :: bool
  vote_proposalId :: nat
  vote_support :: string
  vote_votingPower :: string
  vote_txHash :: string
  vote_explorer :: string

definition vote :: "ethers \<Rightarrow> skill \<Rightarrow> remote \<Rightarrow> nat \<Rightarrow> bool \<Rightarrow> vote_result eff" where
  "vote eth this r proposalId support =
     (case wallet this of
        None \<Rightarrow> throw (Error
          ''No private key configured. Set MOLTDAO_PRIVATE_KEY environment variable.'')
      | Some wl \<Rightarrow>
     (case contracts this of
        None \<Rightarrow> throw (TypeError ''Cannot read properties of undefined (reading governance)'')
      | Some cs \<Rightarrow>
          bind_eff (await (IsProposalActive (governance cs) proposalId)
                          (gov_isProposalActive r (governance cs) proposalId)) (\<lambda>isActive'.
          if \<not> isActive' then
            throw (Error (''Proposal '' @ decimal proposalId @ '' is not active for voting''))
          else
          bind_eff (await (HasUserVoted (governance cs) proposalId (wallet_address wl))
                          (gov_hasUserVoted r (governance cs) proposalId (wallet_address wl)))
            (\<lambda>hasVoted'.
          if hasVoted' then
            throw (Error (''Already voted on proposal '' @ decimal proposalId))
          else
          bind_eff (await (GetVotingPower (governance cs) (wallet_address wl))
                          (gov_getVotingPower r (governance cs) (wallet_address wl))) (\<lambda>power.
          if power = 0 then
            throw (Error ''No voting power. You need USDC tokens to vote.'')
          else
          bind_eff (await (Vote (governance cs) (wallet_address wl) proposalId support)
                          (gov_vote r (governance cs) (wallet_address wl) proposalId support))
            (\<lambda>t.
          bind_eff (await (Wait t) (tx_wait r t)) (\<lambda>receipt.
          bind_eff (lift (formatUnits eth power 18)) (\<lambda>scaled.
            ret \<lparr>vote_success = True,
                 vote_proposalId = proposalId,
                 vote_support = (if support then ''FOR'' else ''AGAINST''),
                 vote_votingPower = scaled,
                 vote_txHash = hash t,
                 vote_explorer = explorer_link this t\<rparr>))))))))"

record donation =
  donation_success :: bool
  donation_amount :: string
  donation_to :: address
  donation_txHash :: string
  donation_explorer :: string

text \<open>
  \<open>amount\<close> is given by its string: \<open>amount.toString()\<close>, which is also what
  \<open>amount + ' USDC'\<close> prepends. \<open>new ethers.Contract\<close> throws when its target is
  \<open>undefined\<close>.
\<close>

definition donateUSDC :: "ethers \<Rightarrow> skill \<Rightarrow> remote \<Rightarrow> string \<Rightarrow> donation eff" where
  "donateUSDC eth this r amount =
     (if network this \<noteq> ''testnet'' then
        throw (Error ''USDC donation only available on testnet'')
      else
     (case wallet this of
        None \<Rightarrow> throw (Error ''No private key configured'')
      | Some wl \<Rightarrow>
     (case contracts this of
        None \<Rightarrow> throw (TypeError ''Cannot read properties of undefined (reading usdc)'')
      | Some cs \<Rightarrow>
     (case usdc cs of
        None \<Rightarrow> throw (TypeError ''invalid value for Contract target'')
      | Some u \<Rightarrow>
          bind_eff (lift (parseUnits eth amount 6)) (\<lambda>amountWei.
          bind_eff (await (Transfer u (wallet_address wl) (governance cs) amountWei)
                          (erc20_transfer r u (wallet_address wl) (governance cs) amountWei))
            (\<lambda>t.
          bind_eff (await (Wait t) (tx_wait r t)) (\<lambda>receipt.
            ret \<lparr>donation_success = True,
                 donation_amount = amount @ '' USDC'',
                 donation_to = governance cs,
                 donation_txHash = hash t,
                 donation_explorer = explorer_link this t\<rparr>)))))))"

record creation =
  creation_success :: bool
  creation_proposalId :: nat
  creation_title :: string
  creation_txHash :: string
  creation_explorer :: string

definition createProposal :: "skill \<Rightarrow> remote \<Rightarrow> string \<Rightarrow> string \<Rightarrow> creation eff" where
  "createProposal this r title' description' =
     (case wallet this of
        None \<Rightarrow> throw (Error ''No private key configured'')
      | Some wl \<Rightarrow>
     (case contracts this of
        None \<Rightarrow> throw (TypeError ''Cannot read properties of undefined (reading governance)'')
      | Some cs \<Rightarrow>
          bind_eff (await (CreateProposal (governance cs) (wallet_address wl) title' description')
                          (gov_createProposal r (governance cs) (wallet_address wl) title' description'))
            (\<lambda>t.
          bind_eff (await (Wait t) (tx_wait r t)) (\<lambda>receipt.
          bind_eff (await (ProposalCount (governance cs)) (gov_proposalCount r (governance cs)))
            (\<lambda>proposalCount.
            ret \<lparr>creation_success = True,
                 creation_proposalId = proposalCount,
                 creation_title = title',
                 creation_txHash = hash t,
                 creation_explorer = explorer_link this t\<rparr>)))))"

section \<open>The library's number formatting\<close>

text \<open>
  \<open>ethers.formatUnits\<close> and \<open>ethers.parseUnits\<close> as the package (version 6)
  documents and implements them, for the values the skill passes: a non-negative
  \<open>BigInt\<close> to format, a string to parse. Both go through \<open>FixedNumber\<close>, which
  refuses more than 80 decimals and values outside 512 signed bits.
  \<^item> \<open>formatUnits\<close> prints the value scaled down by \<open>10^decimals\<close>: the whole
    part, and when \<open>decimals\<close> is not 0 a point and the fraction without its
    trailing zeros, but never fewer than one digit (\<open>1.0\<close>).
  \<^item> \<open>parseUnits\<close> reads \<open>-?digits[.digits]\<close> with at least one digit, and
    refuses a fraction with non-zero digits past \<open>decimals\<close>.
\<close>

definition zero_pad :: "nat \<Rightarrow> string \<Rightarrow> string" where
  "zero_pad n s = replicate (n - length s) CHR ''0'' @ s"

definition trim_fraction :: "string \<Rightarrow> string" where
  "trim_fraction s =
     (case rev (dropWhile (\<lambda>c. c = CHR ''0'') (rev s)) of [] \<Rightarrow> ''0'' | t \<Rightarrow> t)"

definition ethers_formatUnits :: "nat \<Rightarrow> nat \<Rightarrow> error + string" where
  "ethers_formatUnits v d =
     (if 80 < d then Inl (TypeError ''invalid FixedNumber decimals (too large)'')
      else if 2 ^ 511 \<le> v then Inl (Error ''overflow'')
      else if d = 0 then Inr (decimal v)
      else Inr (decimal (v div 10 ^ d) @ ''.'' @ trim_fraction (zero_pad d (decimal (v mod 10 ^ d)))))"

definition is_digit :: "char \<Rightarrow> bool" where
  "is_digit c = (c \<in> set ''0123456789'')"

definition digit_of :: "char \<Rightarrow> nat" where
  "digit_of c = of_char c - 48"

definition digits_value :: "string \<Rightarrow> nat" where
  "digits_value s = foldl (\<lambda>n c. 10 * n + digit_of c) 0 s"

definition ethers_parseUnits :: "string \<Rightarrow> nat \<Rightarrow> error + int" where
  "ethers_parseUnits s d =
     (let negative = (s \<noteq> [] \<and> hd s = CHR ''-'');
          s1 = (if negative then tl s else s);
          whole = takeWhile is_digit s1;
          s2 = dropWhile is_digit s1;
          s3 = (if s2 \<noteq> [] \<and> hd s2 = CHR ''.'' then tl s2 else s2);
          fraction = takeWhile is_digit s3;
          rest = dropWhile is_digit s3
      in if rest \<noteq> [] \<or> (whole = [] \<and> fraction = []) then
           Inl (TypeError ''invalid FixedNumber string value'')
         else if 80 < d then Inl (TypeError ''invalid FixedNumber decimals (too large)'')
         else if \<exists>c \<in> set (drop d fraction). c \<noteq> CHR ''0'' then
           Inl (Error ''too many decimals for format'')
         else
           (let n = digits_value (whole @ take d (fraction @ replicate d CHR ''0''))
            in if 2 ^ 511 \<le> n then Inl (Error ''overflow'')
               else Inr (if negative then - int n else int n)))"

text \<open>
  The library as used in the examples below. No example builds a wallet, and
  \<open>new JsonRpcProvider\<close> accepts any URL (with none it takes the local default) and
  connects to nothing by itself.
\<close>

definition ethers_lib :: ethers where
  "ethers_lib = \<lparr>
     formatUnits = ethers_formatUnits,
     parseUnits = ethers_parseUnits,
     new_Wallet = (\<lambda>k. Inl (TypeError ''invalid private key'')),
     new_JsonRpcProvider = (\<lambda>url. Inr ())\<rparr>"

section \<open>What \<open>getProposals\<close> fetches\<close>

text \<open>
  The outcome of the \<open>try\<close> block for one \<open>i\<close>: the proposal pushed, or the
  error caught. It does not depend on the world the block starts in.
\<close>

definition fetch_outcome :: "ethers \<Rightarrow> remote \<Rightarrow> address \<Rightarrow> nat \<Rightarrow> error + proposal" where
  "fetch_outcome eth r gov i = fst (fetch_proposal eth r gov i world0)"

text \<open>
  The proposals pushed and the lines logged while \<open>i\<close> runs through a list of ids.
\<close>

definition fetched :: "ethers \<Rightarrow> remote \<Rightarrow> address \<Rightarrow> nat list \<Rightarrow> proposal list" where
  "fetched eth r gov js =
     concat (map (\<lambda>j. case fetch_outcome eth r gov j of Inr p \<Rightarrow> [p] | Inl e \<Rightarrow> []) js)"

definition failure_lines :: "ethers \<Rightarrow> remote \<Rightarrow> address \<Rightarrow> nat list \<Rightarrow> (string \<times> string) list" where
  "failure_lines eth r gov js =
     concat (map (\<lambda>j. case fetch_outcome eth r gov j of
                        Inr p \<Rightarrow> []
                      | Inl e \<Rightarrow> [(''Error fetching proposal '' @ decimal j @ '':'', message e)]) js)"

text \<open>The ids of \<open>1..n\<close> whose \<open>try\<close> block throws, and those whose block does not.\<close>

definition failed_ids :: "ethers \<Rightarrow> remote \<Rightarrow> address \<Rightarrow> nat \<Rightarrow> nat list" where
  "failed_ids eth r gov n = filter (\<lambda>j. isl (fetch_outcome eth r gov j)) [1..<Suc n]"

definition fetched_ids :: "ethers \<Rightarrow> remote \<Rightarrow> address \<Rightarrow> nat \<Rightarrow> nat list" where
  "fetched_ids eth r gov n = filter (\<lambda>j. \<not> isl (fetch_outcome eth r gov j)) [1..<Suc n]"

text \<open>
  The calls the \<open>try\<close> block makes for one \<open>i\<close>: each read is made only when
  the one before it answered.
\<close>

definition fetch_calls :: "remote \<Rightarrow> address \<Rightarrow> nat \<Rightarrow> call list" where
  "fetch_calls r gov i =
     GetProposal gov i #
       (case gov_getProposal r gov i of
          Inl e \<Rightarrow> []
        | Inr p \<Rightarrow>
            GetProposalResult gov i #
              (case gov_getProposalResult r gov i of
                 Inl e \<Rightarrow> []
               | Inr res \<Rightarrow> [IsProposalActive gov i]))"

section \<open>Example ledgers and skills\<close>

text \<open>A node that answers nothing, and nodes that answer some calls.\<close>

definition remote_down :: remote where
  "remote_down = \<lparr>
     gov_proposalCount = (\<lambda>g. Inl (Error ''network error'')),
     gov_getProposal = (\<lambda>g i. Inl (Error ''network error'')),
     gov_getProposalResult = (\<lambda>g i. Inl (Error ''network error'')),
     gov_isProposalActive = (\<lambda>g i. Inl (Error ''network error'')),
     gov_hasUserVoted = (\<lambda>g i a. Inl (Error ''network error'')),
     gov_getVotingPower = (\<lambda>g a. Inl (Error ''network error'')),
     gov_vote = (\<lambda>g a i s. Inl (Error ''network error'')),
     gov_createProposal = (\<lambda>g a t d. Inl (Error ''network error'')),
     erc20_symbol = (\<lambda>c. Inl (Error ''network error'')),
     erc20_decimals = (\<lambda>c. Inl (Error ''network error'')),
     erc20_balanceOf = (\<lambda>c a. Inl (Error ''network error'')),
     erc20_transfer = (\<lambda>c a b n. Inl (Error ''network error'')),
     tx_wait = (\<lambda>t. Inl (Error ''network error''))\<rparr>"

definition reader :: skill where
  "reader = \<lparr>network = ''testnet'',
             privateKey = None,
             contracts = Some (network_contracts testnet),
             explorer = Some (explorer_url testnet),
             wallet = None\<rparr>"

definition sample_proposal :: "nat \<Rightarrow> nat \<Rightarrow> proposal_data" where
  "sample_proposal i s = \<lparr>p_id = i, p_title = ''Fund'', p_description = ''Grant'',
     p_startTime = 1700000000, p_endTime = 1700086400,
     p_yesVotes = 3000000000000000000, p_noVotes = 0, p_cancelled = False, p_status = s\<rparr>"

definition sample_result :: result_data where
  "sample_result = \<lparr>r_ended = False, r_passed = False,
     r_yesVotes = 3000000000000000000, r_noVotes = 0, r_totalVotes = 3000000000000000000\<rparr>"

definition remote_status7 :: remote where
  "remote_status7 = remote_down\<lparr>
     gov_proposalCount := (\<lambda>g. Inr 1),
     gov_getProposal := (\<lambda>g i. Inr (sample_proposal i 7)),
     gov_getProposalResult := (\<lambda>g i. Inr sample_result),
     gov_isProposalActive := (\<lambda>g i. Inr True)\<rparr>"

definition remote_empty :: remote where
  "remote_empty = remote_down\<lparr>gov_proposalCount := (\<lambda>g. Inr 0)\<rparr>"

definition remote_flaky :: remote where
  "remote_flaky = remote_down\<lparr>
     gov_proposalCount := (\<lambda>g. Inr 5),
     gov_getProposal := (\<lambda>g i. if i = 3 then Inl (Error ''timeout'') else Inr (sample_proposal i 1)),
     gov_getProposalResult := (\<lambda>g i. Inr sample_result),
     gov_isProposalActive := (\<lambda>g i. Inr True)\<rparr>"

definition remote_statuses :: remote where
  "remote_statuses = remote_down\<lparr>
     gov_proposalCount := (\<lambda>g. Inr 5),
     gov_getProposal := (\<lambda>g i. Inr (sample_proposal i (i - 1))),
     gov_getProposalResult := (\<lambda>g i. Inr sample_result),
     gov_isProposalActive := (\<lambda>g i. Inr True)\<rparr>"

text \<open>
  A skill with a wallet, and a node that answers the three reads of \<open>vote\<close> as
  given and accepts every vote.
\<close>

definition voter :: skill where
  "voter = reader\<lparr>privateKey := Some ''0x01'',
                   wallet := Some \<lparr>wallet_address = ''0xA11CE''\<rparr>\<rparr>"

definition remote_votable :: "bool \<Rightarrow> bool \<Rightarrow> nat \<Rightarrow> remote" where
  "remote_votable active voted pw = remote_down\<lparr>
     gov_isProposalActive := (\<lambda>g i. Inr active),
     gov_hasUserVoted := (\<lambda>g i a. Inr voted),
     gov_getVotingPower := (\<lambda>g a. Inr pw),
     gov_vote := (\<lambda>g a i s. Inr \<lparr>hash = ''0xbeef''\<rparr>),
     tx_wait := (\<lambda>t. Inr ())\<rparr>"

text \<open>
  A skill whose network has no \<open>usdc\<close> contract, and a node that answers the token
  reads: \<open>d\<close> decimals, 1234500 units held by the splitter, and the given answer for
  any other balance.
\<close>

definition no_usdc_skill :: skill where
  "no_usdc_skill = reader\<lparr>contracts := Some ((network_contracts testnet)\<lparr>usdc := None\<rparr>)\<rparr>"

definition remote_treasury :: "nat \<Rightarrow> (error + nat) \<Rightarrow> remote" where
  "remote_treasury d governance_balance = remote_down\<lparr>
     erc20_symbol := (\<lambda>c. Inr ''USDC''),
     erc20_decimals := (\<lambda>c. Inr d),
     erc20_balanceOf := (\<lambda>c a. if a = ''0xcf9933743D2312ea1383574907cF1A9c6fE4808d''
                                  then Inr 1234500 else governance_balance)\<rparr>"

text \<open>A node that accepts every transfer.\<close>

definition remote_accepting :: remote where
  "remote_accepting = remote_down\<lparr>
     erc20_transfer := (\<lambda>c a b n. Inr \<lparr>hash = ''0xfeed''\<rparr>),
     tx_wait := (\<lambda>t. Inr ())\<rparr>"

text \<open>A node that answers every read.\<close>

definition remote_readable :: remote where
  "remote_readable = remote_down\<lparr>
     gov_proposalCount := (\<lambda>g. Inr 1),
     gov_getProposal := (\<lambda>g i. Inr (sample_proposal i 1)),
     gov_getProposalResult := (\<lambda>g i. Inr sample_result),
     gov_isProposalActive := (\<lambda>g i. Inr True),
     gov_hasUserVoted := (\<lambda>g i a. Inr False),
     gov_getVotingPower := (\<lambda>g a. Inr 3000000000000000000),
     erc20_symbol := (\<lambda>c. Inr ''USDC''),
     erc20_decimals := (\<lambda>c. Inr 6),
     erc20_balanceOf := (\<lambda>c a. Inr 1234500)\<rparr>"

section \<open>Laws of the effects\<close>

lemma bind_eff_ret [simp]: "bind_eff (ret x) f = f x"
  by (simp add: bind_eff_def ret_def)

lemma bind_eff_throw [simp]: "bind_eff (throw e) f = throw e"
  by (simp add: bind_eff_def throw_def)

lemma bind_eff_lift_Inr [simp]: "bind_eff (lift (Inr x)) f = f x"
  by (simp add: bind_eff_def lift_def)

lemma bind_eff_lift_Inl [simp]: "bind_eff (lift (Inl e)) f = throw e"
  by (simp add: bind_eff_def lift_def throw_def)

lemma bind_eff_await_Inr [simp]:
  "bind_eff (await c (Inr x)) f w = f x (w\<lparr>calls := calls w @ [c]\<rparr>)"
  by (simp add: bind_eff_def await_def)

lemma bind_eff_await_Inl [simp]:
  "bind_eff (await c (Inl e)) f w = (Inl e, w\<lparr>calls := calls w @ [c]\<rparr>)"
  by (simp add: bind_eff_def await_def)

lemma ret_apply [simp]: "ret x w = (Inr x, w)"
  by (simp add: ret_def)

lemma throw_apply [simp]: "throw e w = (Inl e, w)"
  by (simp add: throw_def)

section \<open>The enumeration\<close>

lemma fetch_proposal_fst: "fst (fetch_proposal eth r gov i w) = fetch_outcome eth r gov i"
  unfolding fetch_outcome_def fetch_proposal_def
  by (cases "gov_getProposal r gov i"; cases "gov_getProposalResult r gov i";
      cases "gov_isProposalActive r gov i"; simp;
      cases "formatUnits eth (p_yesVotes (projr (gov_getProposal r gov i))) 18"; simp;
      cases "formatUnits eth (p_noVotes (projr (gov_getProposal r gov i))) 18"; simp;
      cases "formatUnits eth (r_totalVotes (projr (gov_getProposalResult r gov i))) 18"; simp)

lemma fetch_proposal_console: "console (snd (fetch_proposal eth r gov i w)) = console w"
  unfolding fetch_proposal_def
  by (cases "gov_getProposal r gov i"; cases "gov_getProposalResult r gov i";
      cases "gov_isProposalActive r gov i"; simp;
      cases "formatUnits eth (p_yesVotes (projr (gov_getProposal r gov i))) 18"; simp;
      cases "formatUnits eth (p_noVotes (projr (gov_getProposal r gov i))) 18"; simp;
      cases "formatUnits eth (r_totalVotes (projr (gov_getProposalResult r gov i))) 18"; simp)

lemma fetched_Nil [simp]: "fetched eth r gov [] = []"
  by (simp add: fetched_def)

lemma failure_lines_Nil [simp]: "failure_lines eth r gov [] = []"
  by (simp add: failure_lines_def)

lemma fetched_Cons_Inr:
  "fetch_outcome eth r gov j = Inr p \<Longrightarrow> fetched eth r gov (j # js) = p # fetched eth r gov js"
  by (simp add: fetched_def)

lemma fetched_Cons_Inl:
  "fetch_outcome eth r gov j = Inl e \<Longrightarrow> fetched eth r gov (j # js) = fetched eth r gov js"
  by (simp add: fetched_def)

lemma failure_lines_Cons_Inr:
  "fetch_outcome eth r gov j = Inr p \<Longrightarrow>
     failure_lines eth r gov (j # js) = failure_lines eth r gov js"
  by (simp add: failure_lines_def)

lemma failure_lines_Cons_Inl:
  "fetch_outcome eth r gov j = Inl e \<Longrightarrow>
     failure_lines eth r gov (j # js) =
       (''Error fetching proposal '' @ decimal j @ '':'', message e) # failure_lines eth r gov js"
  by (simp add: failure_lines_def)

lemma getProposals_loop_result:
  "getProposals_loop eth r gov n i ps w = (ps', w') \<Longrightarrow>
     ps' = ps @ fetched eth r gov [i..<Suc n] \<and>
     console w' = console w @ failure_lines eth r gov [i..<Suc n]"
proof (induction eth r gov n i ps w rule: getProposals_loop.induct)
  case (1 eth r gov n i ps w)
  show ?case
  proof (cases "i \<le> n")
    case False
    then have "[i..<Suc n] = []" by simp
    with "1.prems" False show ?thesis
      by (simp add: getProposals_loop.simps [of eth r gov n i] del: upt_Suc)
  next
    case True
    then have upt: "[i..<Suc n] = i # [i + 1..<Suc n]"
      by (simp add: upt_conv_Cons)
    obtain out w1 where f: "fetch_proposal eth r gov i w = (out, w1)"
      by (cases "fetch_proposal eth r gov i w")
    have out: "fetch_outcome eth r gov i = out"
      using fetch_proposal_fst [of eth r gov i w] f by simp
    have con: "console w1 = console w"
      using fetch_proposal_console [of eth r gov i w] f by simp
    show ?thesis
    proof (cases out)
      case (Inr p)
      have "getProposals_loop eth r gov n (i + 1) (ps @ [p]) w1 = (ps', w')"
        using "1.prems" True f Inr by (simp add: getProposals_loop.simps [of eth r gov n i])
      from "1.IH"(2) [OF True f [symmetric] Inr this]
      have "ps' = (ps @ [p]) @ fetched eth r gov [i + 1..<Suc n]"
        and "console w' = console w1 @ failure_lines eth r gov [i + 1..<Suc n]"
        by blast+
      moreover have "fetch_outcome eth r gov i = Inr p"
        using out Inr by simp
      ultimately show ?thesis
        unfolding upt by (simp add: fetched_Cons_Inr failure_lines_Cons_Inr con)
    next
      case (Inl e)
      define w2 where "w2 = w1\<lparr>console := console w1 @
        [(''Error fetching proposal '' @ decimal i @ '':'', message e)]\<rparr>"
      have c: "console_error (''Error fetching proposal '' @ decimal i @ '':'') (message e) w1
                 = (Inr (), w2)"
        by (simp add: console_error_def w2_def)
      have "getProposals_loop eth r gov n (i + 1) ps w2 = (ps', w')"
        using "1.prems" True f Inl c by (simp add: getProposals_loop.simps [of eth r gov n i])
      from "1.IH"(1) [OF True f [symmetric] Inl c [symmetric] this]
      have "ps' = ps @ fetched eth r gov [i + 1..<Suc n]"
        and "console w' = console w2 @ failure_lines eth r gov [i + 1..<Suc n]"
        by blast+
      moreover have "fetch_outcome eth r gov i = Inl e"
        using out Inl by simp
      ultimately show ?thesis
        unfolding upt by (simp add: fetched_Cons_Inl failure_lines_Cons_Inl con w2_def)
    qed
  qed
qed


lemma formatUnits_3: "ethers_formatUnits 3000000000000000000 18 = Inr ''3.0''"
  by (simp add: ethers_formatUnits_def decimal.simps digit_char_def zero_pad_def trim_fraction_def)

lemma formatUnits_0: "ethers_formatUnits 0 18 = Inr ''0.0''"
  by (simp add: ethers_formatUnits_def decimal.simps digit_char_def zero_pad_def trim_fraction_def)


lemma fetch_outcome_eq:
  "fetch_outcome eth r gov i =
     (case gov_getProposal r gov i of Inl e \<Rightarrow> Inl e | Inr p \<Rightarrow>
      case gov_getProposalResult r gov i of Inl e \<Rightarrow> Inl e | Inr res \<Rightarrow>
      case gov_isProposalActive r gov i of Inl e \<Rightarrow> Inl e | Inr a \<Rightarrow>
      case formatUnits eth (p_yesVotes p) 18 of Inl e \<Rightarrow> Inl e | Inr yes \<Rightarrow>
      case formatUnits eth (p_noVotes p) 18 of Inl e \<Rightarrow> Inl e | Inr no \<Rightarrow>
      case formatUnits eth (r_totalVotes res) 18 of Inl e \<Rightarrow> Inl e | Inr tot \<Rightarrow>
        Inr \<lparr>proposal_id = p_id p, title = p_title p, description = p_description p,
             startTime = p_startTime p * 1000, endTime = p_endTime p * 1000,
             yesVotes = yes, noVotes = no, cancelled = p_cancelled p,
             status = js_index status_labels (p_status p), isActive = a,
             passed = r_passed res, totalVotes = tot\<rparr>)"
  unfolding fetch_outcome_def fetch_proposal_def
  by (simp add: world0_def split: sum.splits)

lemma fetched_eq_map:
  "fetched eth r gov js =
     map (\<lambda>j. projr (fetch_outcome eth r gov j))
         (filter (\<lambda>j. \<not> isl (fetch_outcome eth r gov j)) js)"
proof (induction js)
  case Nil
  show ?case by simp
next
  case (Cons j js)
  then show ?case
    by (cases "fetch_outcome eth r gov j") (simp_all add: fetched_Cons_Inr fetched_Cons_Inl)
qed

lemma failure_lines_eq_map:
  "failure_lines eth r gov js =
     map (\<lambda>j. (''Error fetching proposal '' @ decimal j @ '':'',
                message (projl (fetch_outcome eth r gov j))))
         (filter (\<lambda>j. isl (fetch_outcome eth r gov j)) js)"
proof (induction js)
  case Nil
  show ?case by simp
next
  case (Cons j js)
  then show ?case
    by (cases "fetch_outcome eth r gov j")
       (simp_all add: failure_lines_Cons_Inr failure_lines_Cons_Inl)
qed

lemma getProposals_eq:
  assumes "contracts this = Some cs" and "gov_proposalCount r (governance cs) = Inr n"
  shows "\<exists>w'. getProposals eth this r w =
           (Inr (map (\<lambda>j. projr (fetch_outcome eth r (governance cs) j))
                     (fetched_ids eth r (governance cs) n)), w') \<and>
         console w' = console w @
           map (\<lambda>j. (''Error fetching proposal '' @ decimal j @ '':'',
                      message (projl (fetch_outcome eth r (governance cs) j))))
               (failed_ids eth r (governance cs) n)"
proof -
  define w0 where "w0 = w\<lparr>calls := calls w @ [ProposalCount (governance cs)]\<rparr>"
  obtain ps w' where l: "getProposals_loop eth r (governance cs) n 1 [] w0 = (ps, w')"
    by (cases "getProposals_loop eth r (governance cs) n 1 [] w0")
  have g: "getProposals eth this r w = (Inr ps, w')"
    using assms l by (simp add: getProposals_def w0_def)
  from getProposals_loop_result [OF l]
  have "ps = fetched eth r (governance cs) [1..<Suc n]"
    and "console w' = console w0 @ failure_lines eth r (governance cs) [1..<Suc n]"
    by simp_all
  then show ?thesis
    using g by (simp add: fetched_eq_map failure_lines_eq_map fetched_ids_def failed_ids_def
                          w0_def del: upt_Suc)
qed

lemma length_fetched_ids:
  "length (fetched_ids eth r gov n) = n - length (failed_ids eth r gov n)"
proof -
  have "length (filter (\<lambda>j. isl (fetch_outcome eth r gov j)) [1..<Suc n]) +
        length (filter (\<lambda>j. \<not> isl (fetch_outcome eth r gov j)) [1..<Suc n]) =
        length [1..<Suc n]"
    by (rule sum_length_filter_compl)
  then show ?thesis
    by (simp add: fetched_ids_def failed_ids_def del: upt_Suc)
qed

lemma failed_ids_set:
  "set (failed_ids eth r gov n) = {j. 1 \<le> j \<and> j \<le> n \<and> isl (fetch_outcome eth r gov j)}"
  by (auto simp: failed_ids_def simp del: upt_Suc)

lemma failed_ids_card:
  "length (failed_ids eth r gov n) = card {j. 1 \<le> j \<and> j \<le> n \<and> isl (fetch_outcome eth r gov j)}"
proof -
  have "distinct (failed_ids eth r gov n)"
    by (simp add: failed_ids_def del: upt_Suc)
  then have "card (set (failed_ids eth r gov n)) = length (failed_ids eth r gov n)"
    by (rule distinct_card)
  then show ?thesis by (simp add: failed_ids_set)
qed

lemma fetch_outcome_proposal:
  assumes "fetch_outcome eth r gov j = Inr p"
  shows "\<exists>raw. gov_getProposal r gov j = Inr raw \<and> proposal_id p = p_id raw \<and>
           status p = js_index status_labels (p_status raw)"
  using assms by (auto simp: fetch_outcome_eq split: sum.splits)

lemma fetch_outcome_proposal_id:
  assumes "\<forall>j p. gov_getProposal r gov j = Inr p \<longrightarrow> p_id p = j"
    and "\<not> isl (fetch_outcome eth r gov j)"
  shows "proposal_id (projr (fetch_outcome eth r gov j)) = j"
proof -
  obtain p where p: "fetch_outcome eth r gov j = Inr p"
    using assms(2) by (cases "fetch_outcome eth r gov j") auto
  from fetch_outcome_proposal [OF p] assms(1) p show ?thesis by auto
qed

lemma status_labels_index:
  "js_index status_labels s =
     (if s = 0 then Some ''Pending'' else if s = 1 then Some ''Active''
      else if s = 2 then Some ''Ended'' else if s = 3 then Some ''Cancelled'' else None)"
proof -
  consider "s = 0" | "s = 1" | "s = 2" | "s = 3" | "4 \<le> s" by linarith
  then show ?thesis
    by cases (simp_all add: js_index_def status_labels_def)
qed

lemma fetched_ids_set:
  "set (fetched_ids eth r gov n) = {j. 1 \<le> j \<and> j \<le> n \<and> \<not> isl (fetch_outcome eth r gov j)}"
  by (auto simp: fetched_ids_def simp del: upt_Suc)

section \<open>The constructor\<close>

lemma new_MoltDAOSkill_no_key:
  assumes "new_MoltDAOSkill eth env_key cfg w = (Inr this, w')"
    and "\<not> truthy (js_or (config_privateKey cfg) env_key)"
  shows "wallet this = None"
proof -
  define n where "n = (case js_or (config_network cfg) (Some ''testnet'') of
                        Some n \<Rightarrow> n | None \<Rightarrow> ''testnet'')"
  define k where "k = js_or (config_privateKey cfg) env_key"
  have nk: "k = None \<or> k = Some []"
    using assms(2) by (auto simp: k_def truthy_def split: option.splits)
  show ?thesis
  proof (cases "NETWORKS n")
    case None
    with assms(1) show ?thesis
      by (simp add: new_MoltDAOSkill_def n_def [symmetric])
  next
    case (Some entry)
    show ?thesis
    proof (cases "new_JsonRpcProvider eth
                    (case entry of Config nc \<Rightarrow> Some (rpc nc) | Inherited \<Rightarrow> None)")
      case (Inl e)
      with assms(1) Some show ?thesis
        by (simp add: new_MoltDAOSkill_def n_def [symmetric] Let_def)
    next
      case (Inr u)
      with assms(1) Some nk show ?thesis
        by (auto simp: new_MoltDAOSkill_def n_def [symmetric] k_def [symmetric] Let_def)
    qed
  qed
qed

lemma new_MoltDAOSkill_reader:
  "new_MoltDAOSkill ethers_lib None \<lparr>config_network = None, config_privateKey = None\<rparr> world0 =
     (Inr reader, \<lparr>calls = [JsonRpcProvider (Some ''https://sepolia.base.org'')], console = []\<rparr>)"
  by (simp add: new_MoltDAOSkill_def js_or_def truthy_def NETWORKS_def Let_def ethers_lib_def
                reader_def world0_def testnet_def)


section \<open>Voting\<close>

lemma vote_no_wallet:
  "wallet this = None \<Longrightarrow>
   vote eth this r proposalId support w =
     (Inl (Error ''No private key configured. Set MOLTDAO_PRIVATE_KEY environment variable.''), w)"
  by (simp add: vote_def)

lemma vote_not_active:
  assumes "wallet this = Some wl" and "contracts this = Some cs"
    and "gov_isProposalActive r (governance cs) proposalId = Inr False"
  shows "vote eth this r proposalId support w =
     (Inl (Error (''Proposal '' @ decimal proposalId @ '' is not active for voting'')),
      w\<lparr>calls := calls w @ [IsProposalActive (governance cs) proposalId]\<rparr>)"
  using assms by (simp add: vote_def)

lemma vote_already_voted:
  assumes "wallet this = Some wl" and "contracts this = Some cs"
    and "gov_isProposalActive r (governance cs) proposalId = Inr True"
    and "gov_hasUserVoted r (governance cs) proposalId (wallet_address wl) = Inr True"
  shows "vote eth this r proposalId support w =
     (Inl (Error (''Already voted on proposal '' @ decimal proposalId)),
      w\<lparr>calls := calls w @ [IsProposalActive (governance cs) proposalId,
                             HasUserVoted (governance cs) proposalId (wallet_address wl)]\<rparr>)"
  using assms by (simp add: vote_def)

lemma vote_no_power:
  assumes "wallet this = Some wl" and "contracts this = Some cs"
    and "gov_isProposalActive r (governance cs) proposalId = Inr True"
    and "gov_hasUserVoted r (governance cs) proposalId (wallet_address wl) = Inr False"
    and "gov_getVotingPower r (governance cs) (wallet_address wl) = Inr 0"
  shows "vote eth this r proposalId support w =
     (Inl (Error ''No voting power. You need USDC tokens to vote.''),
      w\<lparr>calls := calls w @ [IsProposalActive (governance cs) proposalId,
                             HasUserVoted (governance cs) proposalId (wallet_address wl),
                             GetVotingPower (governance cs) (wallet_address wl)]\<rparr>)"
  using assms by (simp add: vote_def)

lemma vote_submits:
  assumes "wallet this = Some wl" and "contracts this = Some cs"
    and "gov_isProposalActive r (governance cs) proposalId = Inr True"
    and "gov_hasUserVoted r (governance cs) proposalId (wallet_address wl) = Inr False"
    and "gov_getVotingPower r (governance cs) (wallet_address wl) = Inr pw"
    and "0 < pw"
  shows "\<exists>res rest. vote eth this r proposalId support w =
     (res, w\<lparr>calls := calls w @ [IsProposalActive (governance cs) proposalId,
                               HasUserVoted (governance cs) proposalId (wallet_address wl),
                               GetVotingPower (governance cs) (wallet_address wl),
                               Vote (governance cs) (wallet_address wl) proposalId support]
                             @ rest\<rparr>)"
proof -
  let ?guards = "[IsProposalActive (governance cs) proposalId,
                  HasUserVoted (governance cs) proposalId (wallet_address wl),
                  GetVotingPower (governance cs) (wallet_address wl),
                  Vote (governance cs) (wallet_address wl) proposalId support]"
  have "\<exists>res rest. vote eth this r proposalId support w =
          (res, w\<lparr>calls := calls w @ ?guards @ rest\<rparr>)"
  proof (cases "gov_vote r (governance cs) (wallet_address wl) proposalId support")
    case (Inl e)
    with assms have "vote eth this r proposalId support w =
        (Inl e, w\<lparr>calls := calls w @ ?guards @ []\<rparr>)"
      by (simp add: vote_def)
    then show ?thesis by blast
  next
    case t: (Inr t)
    show ?thesis
    proof (cases "tx_wait r t")
      case (Inl e)
      with assms t have "vote eth this r proposalId support w =
          (Inl e, w\<lparr>calls := calls w @ ?guards @ [Wait t]\<rparr>)"
        by (simp add: vote_def)
      then show ?thesis by blast
    next
      case (Inr u)
      show ?thesis
      proof (cases "formatUnits eth pw 18")
        case (Inl e)
        with assms t Inr have "vote eth this r proposalId support w =
            (Inl e, w\<lparr>calls := calls w @ ?guards @ [Wait t]\<rparr>)"
          by (simp add: vote_def)
        then show ?thesis by blast
      next
        case scaled: (Inr scaled)
        with assms t Inr have "vote eth this r proposalId support w =
            (Inr \<lparr>vote_success = True, vote_proposalId = proposalId,
                  vote_support = (if support then ''FOR'' else ''AGAINST''),
                  vote_votingPower = scaled, vote_txHash = hash t,
                  vote_explorer = explorer_link this t\<rparr>,
             w\<lparr>calls := calls w @ ?guards @ [Wait t]\<rparr>)"
          by (simp add: vote_def)
        then show ?thesis by blast
      qed
    qed
  qed
  then show ?thesis by simp
qed

lemma vote_messages_distinct:
  "distinct [''No private key configured. Set MOLTDAO_PRIVATE_KEY environment variable.'',
             ''Proposal '' @ decimal proposalId @ '' is not active for voting'',
             ''Already voted on proposal '' @ decimal proposalId,
             ''No voting power. You need USDC tokens to vote.'']"
  by simp


lemma voter_wallet: "wallet voter = Some \<lparr>wallet_address = ''0xA11CE''\<rparr>"
  by (simp add: voter_def)

lemma voter_contracts: "contracts voter = Some (network_contracts testnet)"
  by (simp add: voter_def reader_def)

lemma governance_testnet:
  "governance (network_contracts testnet) = ''0xa5070Da0d76F1872D1c112D6e71f3666598314DF''"
  by (simp add: testnet_def)

lemma decimal_7: "decimal 7 = ''7''"
  by (simp add: decimal.simps digit_char_def)

lemma remote_votable_reads:
  "gov_isProposalActive (remote_votable a v pw) g i = Inr a"
  "gov_hasUserVoted (remote_votable a v pw) g i u = Inr v"
  "gov_getVotingPower (remote_votable a v pw) g u = Inr pw"
  by (simp_all add: remote_votable_def remote_down_def)

lemma getProposals_wallet:
  "getProposals eth (this\<lparr>wallet := x, privateKey := k\<rparr>) r = getProposals eth this r"
  by (simp add: getProposals_def)

lemma getVotingPower_wallet:
  "getVotingPower eth (this\<lparr>wallet := x, privateKey := k\<rparr>) r a = getVotingPower eth this r a"
  by (simp add: getVotingPower_def)

lemma hasVoted_wallet:
  "hasVoted (this\<lparr>wallet := x, privateKey := k\<rparr>) r i a = hasVoted this r i a"
  by (simp add: hasVoted_def)

lemma getTreasury_wallet:
  "getTreasury eth (this\<lparr>wallet := x, privateKey := k\<rparr>) r = getTreasury eth this r"
proof -
  have n: "network (this\<lparr>wallet := x, privateKey := k\<rparr>) = network this"
    by simp
  have c: "contracts (this\<lparr>wallet := x, privateKey := k\<rparr>) = contracts this"
    by simp
  show ?thesis
    unfolding getTreasury_def n c by (rule refl)
qed

section \<open>Decimal strings\<close>

lemma digit_cases:
  assumes "d < (10::nat)"
  shows "d = 0 \<or> d = 1 \<or> d = 2 \<or> d = 3 \<or> d = 4 \<or> d = 5 \<or> d = 6 \<or> d = 7 \<or> d = 8 \<or> d = 9"
proof -
  from assms have "d \<in> set [0..<10]" by simp
  also have "[0..<10] = [0, 1, 2, 3, 4, 5, 6, 7, 8, 9::nat]"
    by (simp add: upt_rec)
  finally show ?thesis by simp
qed

lemma digit_char_digit: "d < 10 \<Longrightarrow> is_digit (digit_char d)"
  by (drule digit_cases, elim disjE) (simp_all add: digit_char_def is_digit_def)

lemma digit_of_digit_char: "d < 10 \<Longrightarrow> digit_of (digit_char d) = d"
  by (drule digit_cases, elim disjE) (simp_all add: digit_char_def digit_of_def)

lemma digit_char_nonzero: "d < 10 \<Longrightarrow> 0 < d \<Longrightarrow> digit_char d \<noteq> CHR ''0''"
  by (drule digit_cases, elim disjE) (simp_all add: digit_char_def)

lemma decimal_digits: "c \<in> set (decimal n) \<Longrightarrow> is_digit c"
proof (induction n rule: decimal.induct)
  case (1 n)
  show ?case
  proof (cases "n < 10")
    case True
    have "decimal n = [digit_char n]"
      using True by (simp add: decimal.simps [of n])
    with digit_char_digit [OF True] "1.prems" show ?thesis
      by simp
  next
    case False
    have d: "decimal n = decimal (n div 10) @ [digit_char (n mod 10)]"
      using False by (simp add: decimal.simps [of n])
    have "n mod 10 < 10" by simp
    from digit_char_digit [OF this] "1.IH" [OF False] "1.prems" show ?thesis
      unfolding d by auto
  qed
qed

lemma decimal_no_point: "CHR ''.'' \<notin> set (decimal n)"
proof
  assume "CHR ''.'' \<in> set (decimal n)"
  then have "is_digit (CHR ''.'')"
    by (rule decimal_digits)
  then show False by (simp add: is_digit_def)
qed

lemma digits_value_snoc: "digits_value (s @ [c]) = 10 * digits_value s + digit_of c"
  by (simp add: digits_value_def)

lemma digits_value_decimal: "digits_value (decimal n) = n"
proof (induction n rule: decimal.induct)
  case (1 n)
  show ?case
  proof (cases "n < 10")
    case True
    have "decimal n = [digit_char n]"
      using True by (simp add: decimal.simps [of n])
    then show ?thesis
      by (simp add: digits_value_def digit_of_digit_char [OF True])
  next
    case False
    have d: "decimal n = decimal (n div 10) @ [digit_char (n mod 10)]"
      using False by (simp add: decimal.simps [of n])
    have "n mod 10 < 10" by simp
    from digit_of_digit_char [OF this] "1.IH" [OF False]
    have "digits_value (decimal n) = 10 * (n div 10) + n mod 10"
      by (simp only: d digits_value_snoc)
    then show ?thesis by simp
  qed
qed

lemma decimal_inj:
  assumes "decimal m = decimal n"
  shows "m = n"
proof -
  from assms have "digits_value (decimal m) = digits_value (decimal n)"
    by simp
  then show ?thesis
    unfolding digits_value_decimal .
qed

lemma split_at_first:
  assumes "x \<notin> set xs" and "x \<notin> set xs'" and "xs @ x # ys = xs' @ x # ys'"
  shows "xs = xs' \<and> ys = ys'"
proof -
  have "takeWhile (\<lambda>c. c \<noteq> x) (xs @ x # ys) = xs @ takeWhile (\<lambda>c. c \<noteq> x) (x # ys)"
    using assms(1) by (intro takeWhile_append2) auto
  moreover have "takeWhile (\<lambda>c. c \<noteq> x) (xs' @ x # ys') = xs' @ takeWhile (\<lambda>c. c \<noteq> x) (x # ys')"
    using assms(2) by (intro takeWhile_append2) auto
  ultimately have "xs = xs'"
    using assms(3) by simp
  with assms(3) show ?thesis by simp
qed


lemma length_decimal: "n < 10 ^ d \<Longrightarrow> 0 < d \<Longrightarrow> length (decimal n) \<le> d"
proof (induction n arbitrary: d rule: decimal.induct)
  case (1 n)
  show ?case
  proof (cases "n < 10")
    case True
    with "1.prems" show ?thesis by (simp add: decimal.simps [of n])
  next
    case False
    obtain e where d: "d = Suc e" using "1.prems"(2) by (cases d) auto
    have e: "0 < e"
    proof (rule ccontr)
      assume "\<not> 0 < e"
      with d "1.prems"(1) False show False by simp
    qed
    have "n div 10 < 10 ^ e"
      using "1.prems"(1) d by (simp add: less_mult_imp_div_less mult.commute)
    from "1.IH" [OF False this e] d False show ?thesis
      by (simp add: decimal.simps [of n])
  qed
qed

lemma decimal_nonzero_digit: "0 < n \<Longrightarrow> \<exists>c \<in> set (decimal n). c \<noteq> CHR ''0''"
proof (induction n rule: decimal.induct)
  case (1 n)
  show ?case
  proof (cases "n < 10")
    case True
    have "decimal n = [digit_char n]"
      using True by (simp add: decimal.simps [of n])
    with digit_char_nonzero [OF True "1.prems"] show ?thesis
      by simp
  next
    case False
    have d: "decimal n = decimal (n div 10) @ [digit_char (n mod 10)]"
      using False by (simp add: decimal.simps [of n])
    from False have "0 < n div 10" by simp
    from "1.IH" [OF False this] show ?thesis
      unfolding d by auto
  qed
qed

lemma trim_padded:
  assumes "\<exists>c \<in> set s. c \<noteq> z"
  shows "dropWhile (\<lambda>c. c = z) (rev (replicate k z @ s)) =
           dropWhile (\<lambda>c. c = z) (rev s) @ replicate k z"
    and "dropWhile (\<lambda>c. c = z) (rev s) \<noteq> []"
proof -
  from assms obtain c where "c \<in> set (rev s)" and "\<not> c = z" by auto
  then show "dropWhile (\<lambda>c. c = z) (rev (replicate k z @ s)) =
           dropWhile (\<lambda>c. c = z) (rev s) @ replicate k z"
    by (simp add: dropWhile_append1)
  from assms show "dropWhile (\<lambda>c. c = z) (rev s) \<noteq> []"
    by (auto simp: dropWhile_eq_Nil_conv)
qed

lemma trim_fraction_zero_pad:
  assumes "\<exists>c \<in> set s. c \<noteq> CHR ''0''"
  shows "trim_fraction (zero_pad d s) =
           replicate (d - length s) CHR ''0'' @ rev (dropWhile (\<lambda>c. c = CHR ''0'') (rev s))"
  unfolding trim_fraction_def zero_pad_def trim_padded(1) [OF assms]
  using trim_padded(2) [OF assms] by (auto split: list.splits)

lemma length_fraction:
  assumes "0 < n" and "n < 10 ^ d" and "0 < d"
  shows "length (trim_fraction (zero_pad d (decimal n))) + length (decimal n) =
           d + length (dropWhile (\<lambda>c. c = CHR ''0'') (rev (decimal n)))"
  using trim_fraction_zero_pad [OF decimal_nonzero_digit [OF assms(1)], of d]
        length_decimal [OF assms(2,3)]
  by simp

lemma formatUnits_whole:
  assumes "v < 2 ^ 511"
  shows "ethers_formatUnits v 0 = Inr (decimal v)"
  using assms by (simp add: ethers_formatUnits_def)

lemma formatUnits_point:
  assumes "0 < d" and "d \<le> 80" and "v < 2 ^ 511"
  shows "ethers_formatUnits v d =
           Inr (decimal (v div 10 ^ d) @ CHR ''.'' #
                trim_fraction (zero_pad d (decimal (v mod 10 ^ d))))"
  using assms by (simp add: ethers_formatUnits_def)

lemma div_power_eq_0:
  fixes v :: nat
  assumes "v div 10 ^ d1 = v div 10 ^ (d1 + Suc k)"
  shows "v < 10 ^ d1"
proof -
  define q where "q = v div 10 ^ d1"
  have "v div 10 ^ (d1 + Suc k) = q div 10 ^ Suc k"
    unfolding q_def by (simp only: power_add div_mult2_eq)
  with assms have e: "q = q div 10 ^ Suc k"
    by (simp add: q_def)
  have "q = 0"
  proof (rule ccontr)
    assume "q \<noteq> 0"
    then have "0 < q" by simp
    moreover have "(1::nat) < 10 ^ Suc k"
      by (rule one_less_power) simp_all
    ultimately have "q div 10 ^ Suc k < q"
      by (rule div_less_dividend [rotated])
    with e show False by simp
  qed
  then show ?thesis
    by (simp add: q_def div_eq_0_iff)
qed

lemma formatUnits_whole_differs:
  assumes "0 < d2" and "d2 \<le> 80" and "v < 2 ^ 511"
  shows "ethers_formatUnits v 0 \<noteq> ethers_formatUnits v d2"
proof
  assume "ethers_formatUnits v 0 = ethers_formatUnits v d2"
  then have e: "decimal v = decimal (v div 10 ^ d2) @ CHR ''.'' #
               trim_fraction (zero_pad d2 (decimal (v mod 10 ^ d2)))"
    unfolding formatUnits_whole [OF assms(3)] formatUnits_point [OF assms]
    by (simp only: sum.inject)
  have "CHR ''.'' \<in> set (decimal (v div 10 ^ d2) @ CHR ''.'' #
               trim_fraction (zero_pad d2 (decimal (v mod 10 ^ d2))))"
    by simp
  then have "CHR ''.'' \<in> set (decimal v)"
    unfolding e [symmetric] .
  with decimal_no_point [of v] show False
    by (rule notE)
qed

lemma fraction_differs:
  assumes "d1 < d2" and "0 < d1" and "0 < v" and "v < 10 ^ d1"
  shows "trim_fraction (zero_pad d1 (decimal v)) \<noteq> trim_fraction (zero_pad d2 (decimal v))"
proof
  assume e: "trim_fraction (zero_pad d1 (decimal v)) = trim_fraction (zero_pad d2 (decimal v))"
  have "(10::nat) ^ d1 < 10 ^ d2"
    using assms(1) by (intro power_strict_increasing) simp_all
  with assms(4) have lt2: "v < 10 ^ d2"
    by (rule less_trans)
  have p2: "0 < d2"
    using assms(1) by simp
  have "length (trim_fraction (zero_pad d1 (decimal v))) + length (decimal v) =
        length (trim_fraction (zero_pad d2 (decimal v))) + length (decimal v)"
    unfolding e by (rule refl)
  then have "d1 + length (dropWhile (\<lambda>c. c = CHR ''0'') (rev (decimal v))) =
             d2 + length (dropWhile (\<lambda>c. c = CHR ''0'') (rev (decimal v)))"
    unfolding length_fraction [OF assms(3,4,2)] length_fraction [OF assms(3) lt2 p2] .
  then have "d1 = d2"
    by (rule add_right_imp_eq)
  with assms(1) show False by simp
qed

lemma formatUnits_scale_lt:
  assumes "d1 < d2" and "d2 \<le> 80" and "0 < v" and "v < 2 ^ 511"
  shows "ethers_formatUnits v d1 \<noteq> ethers_formatUnits v d2"
proof (cases "d1 = 0")
  case True
  have p2: "0 < d2" using assms(1) by simp
  show ?thesis
    unfolding True by (rule formatUnits_whole_differs [OF p2 assms(2,4)])
next
  case False
  then have p1: "0 < d1" and p2: "0 < d2" and l1: "d1 \<le> 80"
    using assms(1,2) by simp_all
  show ?thesis
  proof
    assume "ethers_formatUnits v d1 = ethers_formatUnits v d2"
    then have "decimal (v div 10 ^ d1) @ CHR ''.'' #
                 trim_fraction (zero_pad d1 (decimal (v mod 10 ^ d1))) =
               decimal (v div 10 ^ d2) @ CHR ''.'' #
                 trim_fraction (zero_pad d2 (decimal (v mod 10 ^ d2)))"
      unfolding formatUnits_point [OF p1 l1 assms(4)] formatUnits_point [OF p2 assms(2,4)]
      by (simp only: sum.inject)
    then have wf: "decimal (v div 10 ^ d1) = decimal (v div 10 ^ d2) \<and>
               trim_fraction (zero_pad d1 (decimal (v mod 10 ^ d1))) =
               trim_fraction (zero_pad d2 (decimal (v mod 10 ^ d2)))"
      by (rule split_at_first [OF decimal_no_point decimal_no_point])
    from wf have "decimal (v div 10 ^ d1) = decimal (v div 10 ^ d2)"
      by (rule conjunct1)
    then have w: "v div 10 ^ d1 = v div 10 ^ d2"
      by (rule decimal_inj)
    from wf have f: "trim_fraction (zero_pad d1 (decimal (v mod 10 ^ d1))) =
              trim_fraction (zero_pad d2 (decimal (v mod 10 ^ d2)))"
      by (rule conjunct2)
    from less_imp_Suc_add [OF assms(1)] obtain k where "d2 = Suc (d1 + k)" ..
    then have k: "d2 = d1 + Suc k"
      by simp
    have lt1: "v < 10 ^ d1"
      using w unfolding k by (rule div_power_eq_0)
    have "(10::nat) ^ d1 < 10 ^ d2"
      using assms(1) by (intro power_strict_increasing) simp_all
    with lt1 have lt2: "v < 10 ^ d2"
      by (rule less_trans)
    from f have "trim_fraction (zero_pad d1 (decimal v)) = trim_fraction (zero_pad d2 (decimal v))"
      unfolding mod_less [OF lt1] mod_less [OF lt2] .
    with fraction_differs [OF assms(1) p1 assms(3) lt1] show False
      by (rule notE)
  qed
qed


lemma formatUnits_scale_differs:
  assumes "d \<noteq> 6" and "0 < v" and "ethers_formatUnits v d = Inr s"
  shows "ethers_formatUnits v 6 \<noteq> Inr s"
proof -
  have d: "d \<le> 80"
  proof (rule ccontr)
    assume "\<not> d \<le> 80"
    with assms(3) show False by (simp add: ethers_formatUnits_def)
  qed
  have v: "v < 2 ^ 511"
  proof (rule ccontr)
    assume "\<not> v < 2 ^ 511"
    with assms(3) d show False by (simp add: ethers_formatUnits_def)
  qed
  from assms(1) have "d < 6 \<or> 6 < d" by (simp add: neq_iff)
  then show ?thesis
  proof
    assume "d < 6"
    from formatUnits_scale_lt [OF this _ assms(2) v] have "ethers_formatUnits v d \<noteq> ethers_formatUnits v 6"
      by simp
    with assms(3) show ?thesis by simp
  next
    assume "6 < d"
    from formatUnits_scale_lt [OF this d assms(2) v] have "ethers_formatUnits v 6 \<noteq> ethers_formatUnits v d" .
    with assms(3) show ?thesis by simp
  qed
qed

section \<open>The treasury\<close>

lemma promise_all3_Inr [simp]:
  "bind_eff (promise_all3 (ca, Inr x) (cb, Inr y) (cc, Inr z)) f w =
     f (x, y, z) (w\<lparr>calls := calls w @ [ca, cb, cc]\<rparr>)"
  by (simp add: promise_all3_def bind_eff_def)

lemma try_catch_await_Inl [simp]:
  "try_catch (bind_eff (await c (Inl e)) f) h w = h e (w\<lparr>calls := calls w @ [c]\<rparr>)"
  by (simp add: try_catch_def)

lemma try_catch_await_Inr [simp]:
  "try_catch (bind_eff (await c (Inr x)) f) h w =
     try_catch (f x) h (w\<lparr>calls := calls w @ [c]\<rparr>)"
  by (simp add: try_catch_def)

lemma try_catch_ret [simp]: "try_catch (ret x) h w = (Inr x, w)"
  by (simp add: try_catch_def)

lemma try_catch_throw [simp]: "try_catch (throw e) h w = h e w"
  by (simp add: try_catch_def)

lemma getTreasury_without_usdc:
  assumes "contracts this = Some cs"
    and "erc20_symbol r (token cs) = Inr sy"
    and "erc20_decimals r (token cs) = Inr d"
    and "erc20_balanceOf r (token cs) (splitter cs) = Inr sb"
    and "formatUnits eth sb d = Inr fs"
    and "\<not> (network this = ''testnet'' \<and> truthy (usdc cs))"
  shows "getTreasury eth this r w =
     (Inr \<lparr>treasury_token = \<lparr>token_address = token cs, token_symbol = sy,
                               splitterBalance = fs\<rparr>,
           treasury_usdc = None\<rparr>,
      w\<lparr>calls := calls w @ [Symbol (token cs), Decimals (token cs),
                             BalanceOf (token cs) (splitter cs)]\<rparr>)"
  using assms by (auto simp: getTreasury_def Let_def)

lemma getTreasury_usdc_failed:
  assumes "contracts this = Some cs"
    and "erc20_symbol r (token cs) = Inr sy"
    and "erc20_decimals r (token cs) = Inr d"
    and "erc20_balanceOf r (token cs) (splitter cs) = Inr sb"
    and "formatUnits eth sb d = Inr fs"
    and "network this = ''testnet''" and "usdc cs = Some u" and "u \<noteq> []"
    and "erc20_balanceOf r u (governance cs) = Inl e"
  shows "getTreasury eth this r w =
     (Inr \<lparr>treasury_token = \<lparr>token_address = token cs, token_symbol = sy,
                               splitterBalance = fs\<rparr>,
           treasury_usdc = Some (Failed (message e))\<rparr>,
      w\<lparr>calls := calls w @ [Symbol (token cs), Decimals (token cs),
                             BalanceOf (token cs) (splitter cs),
                             BalanceOf u (governance cs)]\<rparr>)"
  using assms by (simp add: getTreasury_def Let_def truthy_def)

lemma getTreasury_usdc_balance:
  assumes "contracts this = Some cs"
    and "erc20_symbol r (token cs) = Inr sy"
    and "erc20_decimals r (token cs) = Inr d"
    and "erc20_balanceOf r (token cs) (splitter cs) = Inr sb"
    and "formatUnits eth sb d = Inr fs"
    and "network this = ''testnet''" and "usdc cs = Some u" and "u \<noteq> []"
    and "erc20_balanceOf r u (governance cs) = Inr ub"
    and "formatUnits eth ub 6 = Inr fu"
  shows "getTreasury eth this r w =
     (Inr \<lparr>treasury_token = \<lparr>token_address = token cs, token_symbol = sy,
                               splitterBalance = fs\<rparr>,
           treasury_usdc = Some (Balance u fu)\<rparr>,
      w\<lparr>calls := calls w @ [Symbol (token cs), Decimals (token cs),
                             BalanceOf (token cs) (splitter cs),
                             BalanceOf u (governance cs)]\<rparr>)"
  using assms by (simp add: getTreasury_def Let_def truthy_def try_catch_def)

lemma formatUnits_1234500_6: "ethers_formatUnits 1234500 6 = Inr ''1.2345''"
  by (simp add: ethers_formatUnits_def decimal.simps digit_char_def zero_pad_def trim_fraction_def)

lemma replicate_11: "replicate 11 x = [x, x, x, x, x, x, x, x, x, x, x]"
  by (simp add: eval_nat_numeral)

lemma formatUnits_1234500_18: "ethers_formatUnits 1234500 18 = Inr ''0.0000000000012345''"
  by (simp add: ethers_formatUnits_def decimal.simps digit_char_def zero_pad_def trim_fraction_def
                replicate_11)

section \<open>Donations\<close>

lemma is_digit_simps:
  "is_digit CHR ''0''" "is_digit CHR ''1''" "\<not> is_digit CHR ''.''" "\<not> is_digit CHR ''-''"
  by (simp_all add: is_digit_def)

lemma digit_of_simps: "digit_of CHR ''0'' = 0" "digit_of CHR ''1'' = 1"
  by (simp_all add: digit_of_def)

lemma digits_value_10000000: "digits_value ''10000000'' = 10000000"
  by (simp add: digits_value_def digit_of_simps)

lemma replicate_6: "replicate 6 x = [x, x, x, x, x, x]"
  by (simp add: eval_nat_numeral)

lemma decimal_10: "decimal 10 = ''10''"
  by (simp add: decimal.simps digit_char_def)

lemma parseUnits_10: "ethers_parseUnits ''10'' 6 = Inr 10000000"
  by (simp add: ethers_parseUnits_def Let_def is_digit_simps replicate_6 digits_value_10000000
           split del: if_split)

lemma parseUnits_10_0: "ethers_parseUnits ''10.0'' 6 = Inr 10000000"
  by (simp add: ethers_parseUnits_def Let_def is_digit_simps replicate_6 digits_value_10000000
           split del: if_split)

lemma formatUnits_10000000_6: "ethers_formatUnits 10000000 6 = Inr ''10.0''"
  by (simp add: ethers_formatUnits_def decimal.simps digit_char_def zero_pad_def trim_fraction_def)

lemma donateUSDC_transfers:
  assumes "network this = ''testnet''" and "wallet this = Some wl"
    and "contracts this = Some cs" and "usdc cs = Some u"
    and "parseUnits eth amount 6 = Inr amountWei"
  shows "\<exists>res rest. donateUSDC eth this r amount w =
           (res, w\<lparr>calls := calls w @
                   Transfer u (wallet_address wl) (governance cs) amountWei # rest\<rparr>)"
proof (cases "erc20_transfer r u (wallet_address wl) (governance cs) amountWei")
  case (Inl e)
  with assms have "donateUSDC eth this r amount w =
      (Inl e, w\<lparr>calls := calls w @
                   Transfer u (wallet_address wl) (governance cs) amountWei # []\<rparr>)"
    by (simp add: donateUSDC_def)
  then show ?thesis by (intro exI)
next
  case t: (Inr t)
  show ?thesis
  proof (cases "tx_wait r t")
    case (Inl e)
    with assms t have "donateUSDC eth this r amount w =
        (Inl e, w\<lparr>calls := calls w @
                     Transfer u (wallet_address wl) (governance cs) amountWei # [Wait t]\<rparr>)"
      by (simp add: donateUSDC_def)
    then show ?thesis by (intro exI)
  next
    case (Inr x)
    with assms t have "donateUSDC eth this r amount w =
        (Inr \<lparr>donation_success = True, donation_amount = amount @ '' USDC'',
              donation_to = governance cs, donation_txHash = hash t,
              donation_explorer = explorer_link this t\<rparr>,
         w\<lparr>calls := calls w @
                     Transfer u (wallet_address wl) (governance cs) amountWei # [Wait t]\<rparr>)"
      by (simp add: donateUSDC_def)
    then show ?thesis by (intro exI)
  qed
qed

section \<open>Reading\<close>

lemma fetch_proposal_calls:
  "calls (snd (fetch_proposal eth r gov i w)) = calls w @ fetch_calls r gov i"
  unfolding fetch_proposal_def fetch_calls_def
  by (cases "gov_getProposal r gov i"; cases "gov_getProposalResult r gov i";
      cases "gov_isProposalActive r gov i"; simp;
      cases "formatUnits eth (p_yesVotes (projr (gov_getProposal r gov i))) 18"; simp;
      cases "formatUnits eth (p_noVotes (projr (gov_getProposal r gov i))) 18"; simp;
      cases "formatUnits eth (r_totalVotes (projr (gov_getProposalResult r gov i))) 18"; simp)

lemma getProposals_loop_calls:
  "getProposals_loop eth r gov n i ps w = (ps', w') \<Longrightarrow>
     calls w' = calls w @ concat (map (fetch_calls r gov) [i..<Suc n])"
proof (induction eth r gov n i ps w rule: getProposals_loop.induct)
  case (1 eth r gov n i ps w)
  show ?case
  proof (cases "i \<le> n")
    case False
    then have "[i..<Suc n] = []" by simp
    with "1.prems" False show ?thesis
      by (simp add: getProposals_loop.simps [of eth r gov n i] del: upt_Suc)
  next
    case True
    then have upt: "[i..<Suc n] = i # [i + 1..<Suc n]"
      by (simp add: upt_conv_Cons)
    obtain out w1 where f: "fetch_proposal eth r gov i w = (out, w1)"
      by (cases "fetch_proposal eth r gov i w")
    have c1: "calls w1 = calls w @ fetch_calls r gov i"
      using fetch_proposal_calls [of eth r gov i w] f by simp
    show ?thesis
    proof (cases out)
      case (Inr p)
      have "getProposals_loop eth r gov n (i + 1) (ps @ [p]) w1 = (ps', w')"
        using "1.prems" True f Inr by (simp add: getProposals_loop.simps [of eth r gov n i])
      from "1.IH"(2) [OF True f [symmetric] Inr this] show ?thesis
        unfolding upt by (simp add: c1)
    next
      case (Inl e)
      define w2 where "w2 = w1\<lparr>console := console w1 @
        [(''Error fetching proposal '' @ decimal i @ '':'', message e)]\<rparr>"
      have c: "console_error (''Error fetching proposal '' @ decimal i @ '':'') (message e) w1
                 = (Inr (), w2)"
        by (simp add: console_error_def w2_def)
      have "getProposals_loop eth r gov n (i + 1) ps w2 = (ps', w')"
        using "1.prems" True f Inl c by (simp add: getProposals_loop.simps [of eth r gov n i])
      from "1.IH"(1) [OF True f [symmetric] Inl c [symmetric] this] show ?thesis
        unfolding upt by (simp add: c1 w2_def)
    qed
  qed
qed

lemma getProposals_reads:
  assumes "contracts this = Some cs" and "gov_proposalCount r (governance cs) = Inr n"
  shows "\<exists>w'. getProposals eth this r w =
           (Inr (map (\<lambda>j. projr (fetch_outcome eth r (governance cs) j))
                     (fetched_ids eth r (governance cs) n)), w') \<and>
         calls w' = calls w @ ProposalCount (governance cs) #
                      concat (map (fetch_calls r (governance cs)) [1..<Suc n])"
proof -
  define w0 where "w0 = w\<lparr>calls := calls w @ [ProposalCount (governance cs)]\<rparr>"
  obtain ps w' where l: "getProposals_loop eth r (governance cs) n 1 [] w0 = (ps, w')"
    by (cases "getProposals_loop eth r (governance cs) n 1 [] w0")
  have g: "getProposals eth this r w = (Inr ps, w')"
    using assms l by (simp add: getProposals_def w0_def)
  from getProposals_loop_result [OF l]
  have p: "ps = fetched eth r (governance cs) [1..<Suc n]"
    by simp
  from getProposals_loop_calls [OF l]
  have c: "calls w' = calls w @ ProposalCount (governance cs) #
                      concat (map (fetch_calls r (governance cs)) [1..<Suc n])"
    by (simp add: w0_def del: upt_Suc)
  from g p c show ?thesis
    by (simp add: fetched_eq_map fetched_ids_def del: upt_Suc)
qed

lemma hasVoted_reads:
  assumes "contracts this = Some cs"
  shows "hasVoted this r proposalId a w =
           (gov_hasUserVoted r (governance cs) proposalId a,
            w\<lparr>calls := calls w @ [HasUserVoted (governance cs) proposalId a]\<rparr>)"
  using assms by (simp add: hasVoted_def await_def)

lemma getVotingPower_reads:
  assumes "contracts this = Some cs"
    and "gov_getVotingPower r (governance cs) a = Inr pw"
    and "formatUnits eth pw 18 = Inr scaled"
  shows "getVotingPower eth this r a w =
           (Inr \<lparr>vp_address = a, votingPower = scaled, raw = decimal pw\<rparr>,
            w\<lparr>calls := calls w @ [GetVotingPower (governance cs) a]\<rparr>)"
  using assms by (simp add: getVotingPower_def)


lemma decimal_3e18: "decimal 3000000000000000000 = ''3000000000000000000''"
  by (simp add: decimal.simps digit_char_def)

lemma formatUnits_rule_differs:
  assumes "du \<noteq> 6"
  shows "ethers_formatUnits 1 du \<noteq> ethers_formatUnits 1 6"
proof (cases "du \<le> 80")
  case False
  then show ?thesis
    by (simp add: ethers_formatUnits_def)
next
  case True
  have one: "(1::nat) < 2 ^ 511"
    by simp
  from assms have "du < 6 \<or> 6 < du"
    by (simp add: neq_iff)
  then show ?thesis
  proof
    assume "du < 6"
    from formatUnits_scale_lt [OF this _ _ one] show ?thesis
      by simp
  next
    assume "6 < du"
    from formatUnits_scale_lt [OF this True _ one]
    have "ethers_formatUnits 1 6 \<noteq> ethers_formatUnits 1 du"
      by simp
    then show ?thesis
      by (rule not_sym)
  qed
qed

section \<open>Claims\<close>

text \<open>
  C1, as the code has it. Every proposal \<open>getProposals\<close> returns comes from an id
  \<open>j\<close> of \<open>1..n\<close>, and its \<open>status\<close> is the label at the position of the
  remote status code: 0 \<open>Pending\<close>, 1 \<open>Active\<close>, 2 \<open>Ended\<close>, 3
  \<open>Cancelled\<close>. A code outside \<open>0..3\<close> raises nothing: when the reads and the
  formatting of an id succeed, its proposal is returned all the same, with \<open>status\<close>
  \<open>undefined\<close>.
\<close>

theorem getProposals_status:
  assumes "contracts this = Some cs"
    and "gov_proposalCount r (governance cs) = Inr n"
    and "getProposals eth this r w = (Inr ps, w')"
  shows "(\<forall>p \<in> set ps. \<exists>j raw. 1 \<le> j \<and> j \<le> n \<and>
            gov_getProposal r (governance cs) j = Inr raw \<and>
            proposal_id p = p_id raw \<and>
            status p = (if p_status raw = 0 then Some ''Pending''
                        else if p_status raw = 1 then Some ''Active''
                        else if p_status raw = 2 then Some ''Ended''
                        else if p_status raw = 3 then Some ''Cancelled''
                        else None)) \<and>
         (\<forall>j raw res a yes no tot.
            1 \<le> j \<and> j \<le> n \<and>
            gov_getProposal r (governance cs) j = Inr raw \<and>
            gov_getProposalResult r (governance cs) j = Inr res \<and>
            gov_isProposalActive r (governance cs) j = Inr a \<and>
            formatUnits eth (p_yesVotes raw) 18 = Inr yes \<and>
            formatUnits eth (p_noVotes raw) 18 = Inr no \<and>
            formatUnits eth (r_totalVotes res) 18 = Inr tot \<and>
            4 \<le> p_status raw \<longrightarrow>
            (\<exists>p \<in> set ps. proposal_id p = p_id raw \<and> title p = p_title raw \<and> status p = None))"
proof -
  let ?g = "governance cs"
  obtain w'' where "getProposals eth this r w =
      (Inr (map (\<lambda>j. projr (fetch_outcome eth r ?g j)) (fetched_ids eth r ?g n)), w'')"
    using getProposals_eq [OF assms(1,2), of eth w] by blast
  with assms(3) have ps: "ps = map (\<lambda>j. projr (fetch_outcome eth r ?g j)) (fetched_ids eth r ?g n)"
    by simp
  have one: "\<exists>j raw. 1 \<le> j \<and> j \<le> n \<and> gov_getProposal r ?g j = Inr raw \<and>
            proposal_id p = p_id raw \<and>
            status p = (if p_status raw = 0 then Some ''Pending''
                        else if p_status raw = 1 then Some ''Active''
                        else if p_status raw = 2 then Some ''Ended''
                        else if p_status raw = 3 then Some ''Cancelled''
                        else None)" if "p \<in> set ps" for p
  proof -
    from that ps obtain j where j: "j \<in> set (fetched_ids eth r ?g n)"
      and p: "p = projr (fetch_outcome eth r ?g j)"
      by auto
    from j have range: "1 \<le> j" "j \<le> n" and ok: "\<not> isl (fetch_outcome eth r ?g j)"
      by (simp_all add: fetched_ids_set)
    from ok p have "fetch_outcome eth r ?g j = Inr p"
      by (cases "fetch_outcome eth r ?g j") simp_all
    from fetch_outcome_proposal [OF this] obtain raw
      where "gov_getProposal r ?g j = Inr raw"
        and "proposal_id p = p_id raw"
        and "status p = js_index status_labels (p_status raw)"
      by blast
    with range show ?thesis
      unfolding status_labels_index by blast
  qed
  have two: "\<exists>p \<in> set ps. proposal_id p = p_id raw \<and> title p = p_title raw \<and> status p = None"
    if "1 \<le> j" "j \<le> n"
      "gov_getProposal r ?g j = Inr raw"
      "gov_getProposalResult r ?g j = Inr res"
      "gov_isProposalActive r ?g j = Inr a"
      "formatUnits eth (p_yesVotes raw) 18 = Inr yes"
      "formatUnits eth (p_noVotes raw) 18 = Inr no"
      "formatUnits eth (r_totalVotes res) 18 = Inr tot"
      "4 \<le> p_status raw"
    for j raw res a yes no tot
  proof -
    have f: "fetch_outcome eth r ?g j =
      Inr \<lparr>proposal_id = p_id raw, title = p_title raw, description = p_description raw,
           startTime = p_startTime raw * 1000, endTime = p_endTime raw * 1000,
           yesVotes = yes, noVotes = no, cancelled = p_cancelled raw,
           status = js_index status_labels (p_status raw), isActive = a,
           passed = r_passed res, totalVotes = tot\<rparr>"
      using that by (simp add: fetch_outcome_eq)
    then have "j \<in> set (fetched_ids eth r ?g n)"
      using that(1,2) by (simp add: fetched_ids_set)
    then have "projr (fetch_outcome eth r ?g j) \<in> set ps"
      unfolding ps by simp
    moreover have "js_index status_labels (p_status raw) = None"
      using that(9) by (simp add: status_labels_index)
    ultimately show ?thesis
      using f by (intro bexI [of _ "projr (fetch_outcome eth r ?g j)"]) simp_all
  qed
  show ?thesis
    using one two by blast
qed


theorem getProposals_status_witness:
  "contracts reader = Some (network_contracts testnet) \<and>
   gov_proposalCount remote_statuses (governance (network_contracts testnet)) = Inr 5 \<and>
   (\<exists>ps w'. getProposals ethers_lib reader remote_statuses world0 = (Inr ps, w') \<and>
      (\<forall>p \<in> set ps. status p \<in> {Some ''Pending'', Some ''Active'', Some ''Ended'',
                                    Some ''Cancelled'', None}) \<and>
      (\<exists>p \<in> set ps. proposal_id p = 5 \<and> title p = ''Fund'' \<and> status p = None))"
proof -
  let ?g = "governance (network_contracts testnet)"
  have c: "contracts reader = Some (network_contracts testnet)"
    by (simp add: reader_def)
  have n: "gov_proposalCount remote_statuses ?g = Inr 5"
    by (simp add: remote_statuses_def remote_down_def)
  obtain ps w' where g: "getProposals ethers_lib reader remote_statuses world0 = (Inr ps, w')"
    using getProposals_eq [OF c n, of ethers_lib world0] by blast
  note t1 = getProposals_status [OF c n g, THEN conjunct1, rule_format]
  note t2 = getProposals_status [OF c n g, THEN conjunct2, rule_format]
  have a: "\<forall>p \<in> set ps. status p \<in> {Some ''Pending'', Some ''Active'', Some ''Ended'',
                                       Some ''Cancelled'', None}"
  proof
    fix p assume "p \<in> set ps"
    from t1 [OF this] obtain raw :: proposal_data where
      "status p = (if p_status raw = 0 then Some ''Pending''
                   else if p_status raw = 1 then Some ''Active''
                   else if p_status raw = 2 then Some ''Ended''
                   else if p_status raw = 3 then Some ''Cancelled''
                   else None)"
      by auto
    then show "status p \<in> {Some ''Pending'', Some ''Active'', Some ''Ended'',
                            Some ''Cancelled'', None}"
      by simp
  qed
  have h: "1 \<le> (5::nat) \<and> (5::nat) \<le> 5 \<and>
        gov_getProposal remote_statuses ?g 5 = Inr (sample_proposal 5 4) \<and>
        gov_getProposalResult remote_statuses ?g 5 = Inr sample_result \<and>
        gov_isProposalActive remote_statuses ?g 5 = Inr True \<and>
        formatUnits ethers_lib (p_yesVotes (sample_proposal 5 4)) 18 = Inr ''3.0'' \<and>
        formatUnits ethers_lib (p_noVotes (sample_proposal 5 4)) 18 = Inr ''0.0'' \<and>
        formatUnits ethers_lib (r_totalVotes sample_result) 18 = Inr ''3.0'' \<and>
        4 \<le> p_status (sample_proposal 5 4)"
    by (simp add: remote_statuses_def remote_down_def ethers_lib_def sample_proposal_def
                  sample_result_def formatUnits_3 formatUnits_0)
  have "\<exists>p \<in> set ps. proposal_id p = p_id (sample_proposal 5 4) \<and>
                 title p = p_title (sample_proposal 5 4) \<and> status p = None"
    by (rule t2 [OF h])
  then have b: "\<exists>p \<in> set ps. proposal_id p = 5 \<and> title p = ''Fund'' \<and> status p = None"
    by (simp add: sample_proposal_def)
  have "\<exists>ps w'. getProposals ethers_lib reader remote_statuses world0 = (Inr ps, w') \<and>
      (\<forall>p \<in> set ps. status p \<in> {Some ''Pending'', Some ''Active'', Some ''Ended'',
                                    Some ''Cancelled'', None}) \<and>
      (\<exists>p \<in> set ps. proposal_id p = 5 \<and> title p = ''Fund'' \<and> status p = None)"
    using g a b by (intro exI [of _ ps] exI [of _ w'] conjI)
  with c n show ?thesis
    by (intro conjI)
qed

text \<open>
  The claim C1 as stated fails: for a proposal whose remote status code is 7,
  \<open>getProposals\<close> throws nothing and logs nothing, and returns the proposal with
  \<open>status\<close> \<open>undefined\<close>.
\<close>

theorem getProposals_status_out_of_range:
  "gov_getProposal remote_status7 (governance (network_contracts testnet)) 1
     = Inr (sample_proposal 1 7) \<and>
   p_status (sample_proposal 1 7) = 7 \<and>
   getProposals ethers_lib reader remote_status7 world0 =
     (Inr [\<lparr>proposal_id = 1, title = ''Fund'', description = ''Grant'',
            startTime = 1700000000000, endTime = 1700086400000,
            yesVotes = ''3.0'', noVotes = ''0.0'', cancelled = False,
            status = None, isActive = True, passed = False, totalVotes = ''3.0''\<rparr>],
      \<lparr>calls = [ProposalCount ''0xa5070Da0d76F1872D1c112D6e71f3666598314DF'',
                GetProposal ''0xa5070Da0d76F1872D1c112D6e71f3666598314DF'' 1,
                GetProposalResult ''0xa5070Da0d76F1872D1c112D6e71f3666598314DF'' 1,
                IsProposalActive ''0xa5070Da0d76F1872D1c112D6e71f3666598314DF'' 1],
       console = []\<rparr>)"
  by (simp add: getProposals_def reader_def testnet_def remote_status7_def remote_down_def
        world0_def getProposals_loop.simps fetch_proposal_def ethers_lib_def
        formatUnits_3 formatUnits_0 sample_proposal_def sample_result_def
        js_index_def status_labels_def)

text \<open>
  C2. \<open>vote\<close> checks, in this order: a wallet is configured; \<open>isProposalActive\<close>
  is true; \<open>hasUserVoted\<close> for the signer is false; the signer's voting power is not
  zero. The first check that fails throws its own error, and the calls made are exactly
  the reads up to that check: no later read, and no write call. The four messages are
  pairwise different.
\<close>

theorem vote_guard_order:
  "(wallet this = None \<longrightarrow>
      vote eth this r proposalId support w =
        (Inl (Error ''No private key configured. Set MOLTDAO_PRIVATE_KEY environment variable.''),
         w)) \<and>
   (wallet this = Some wl \<and> contracts this = Some cs \<and>
    gov_isProposalActive r (governance cs) proposalId = Inr False \<longrightarrow>
      vote eth this r proposalId support w =
        (Inl (Error (''Proposal '' @ decimal proposalId @ '' is not active for voting'')),
         w\<lparr>calls := calls w @ [IsProposalActive (governance cs) proposalId]\<rparr>)) \<and>
   (wallet this = Some wl \<and> contracts this = Some cs \<and>
    gov_isProposalActive r (governance cs) proposalId = Inr True \<and>
    gov_hasUserVoted r (governance cs) proposalId (wallet_address wl) = Inr True \<longrightarrow>
      vote eth this r proposalId support w =
        (Inl (Error (''Already voted on proposal '' @ decimal proposalId)),
         w\<lparr>calls := calls w @ [IsProposalActive (governance cs) proposalId,
                                HasUserVoted (governance cs) proposalId (wallet_address wl)]\<rparr>)) \<and>
   (wallet this = Some wl \<and> contracts this = Some cs \<and>
    gov_isProposalActive r (governance cs) proposalId = Inr True \<and>
    gov_hasUserVoted r (governance cs) proposalId (wallet_address wl) = Inr False \<and>
    gov_getVotingPower r (governance cs) (wallet_address wl) = Inr 0 \<longrightarrow>
      vote eth this r proposalId support w =
        (Inl (Error ''No voting power. You need USDC tokens to vote.''),
         w\<lparr>calls := calls w @ [IsProposalActive (governance cs) proposalId,
                                HasUserVoted (governance cs) proposalId (wallet_address wl),
                                GetVotingPower (governance cs) (wallet_address wl)]\<rparr>)) \<and>
   filter is_write [IsProposalActive (governance cs) proposalId,
                    HasUserVoted (governance cs) proposalId (wallet_address wl),
                    GetVotingPower (governance cs) (wallet_address wl)] = [] \<and>
   distinct [''No private key configured. Set MOLTDAO_PRIVATE_KEY environment variable.'',
             ''Proposal '' @ decimal proposalId @ '' is not active for voting'',
             ''Already voted on proposal '' @ decimal proposalId,
             ''No voting power. You need USDC tokens to vote.'']"
proof (intro conjI impI)
  assume "wallet this = None"
  then show "vote eth this r proposalId support w =
        (Inl (Error ''No private key configured. Set MOLTDAO_PRIVATE_KEY environment variable.''),
         w)"
    by (rule vote_no_wallet)
next
  assume "wallet this = Some wl \<and> contracts this = Some cs \<and>
    gov_isProposalActive r (governance cs) proposalId = Inr False"
  then show "vote eth this r proposalId support w =
        (Inl (Error (''Proposal '' @ decimal proposalId @ '' is not active for voting'')),
         w\<lparr>calls := calls w @ [IsProposalActive (governance cs) proposalId]\<rparr>)"
    by (intro vote_not_active) simp_all
next
  assume "wallet this = Some wl \<and> contracts this = Some cs \<and>
    gov_isProposalActive r (governance cs) proposalId = Inr True \<and>
    gov_hasUserVoted r (governance cs) proposalId (wallet_address wl) = Inr True"
  then show "vote eth this r proposalId support w =
        (Inl (Error (''Already voted on proposal '' @ decimal proposalId)),
         w\<lparr>calls := calls w @ [IsProposalActive (governance cs) proposalId,
                                HasUserVoted (governance cs) proposalId (wallet_address wl)]\<rparr>)"
    by (intro vote_already_voted) simp_all
next
  assume "wallet this = Some wl \<and> contracts this = Some cs \<and>
    gov_isProposalActive r (governance cs) proposalId = Inr True \<and>
    gov_hasUserVoted r (governance cs) proposalId (wallet_address wl) = Inr False \<and>
    gov_getVotingPower r (governance cs) (wallet_address wl) = Inr 0"
  then show "vote eth this r proposalId support w =
        (Inl (Error ''No voting power. You need USDC tokens to vote.''),
         w\<lparr>calls := calls w @ [IsProposalActive (governance cs) proposalId,
                                HasUserVoted (governance cs) proposalId (wallet_address wl),
                                GetVotingPower (governance cs) (wallet_address wl)]\<rparr>)"
    by (intro vote_no_power) simp_all
next
  show "filter is_write [IsProposalActive (governance cs) proposalId,
                    HasUserVoted (governance cs) proposalId (wallet_address wl),
                    GetVotingPower (governance cs) (wallet_address wl)] = []"
    by simp
next
  show "distinct [''No private key configured. Set MOLTDAO_PRIVATE_KEY environment variable.'',
             ''Proposal '' @ decimal proposalId @ '' is not active for voting'',
             ''Already voted on proposal '' @ decimal proposalId,
             ''No voting power. You need USDC tokens to vote.'']"
    by (rule vote_messages_distinct)
qed

theorem vote_guard_order_witness:
  "vote ethers_lib reader (remote_votable True False 5) 7 True world0 =
     (Inl (Error ''No private key configured. Set MOLTDAO_PRIVATE_KEY environment variable.''),
      world0) \<and>
   vote ethers_lib voter (remote_votable False False 5) 7 True world0 =
     (Inl (Error ''Proposal 7 is not active for voting''),
      \<lparr>calls = [IsProposalActive ''0xa5070Da0d76F1872D1c112D6e71f3666598314DF'' 7],
       console = []\<rparr>) \<and>
   vote ethers_lib voter (remote_votable True True 5) 7 True world0 =
     (Inl (Error ''Already voted on proposal 7''),
      \<lparr>calls = [IsProposalActive ''0xa5070Da0d76F1872D1c112D6e71f3666598314DF'' 7,
                HasUserVoted ''0xa5070Da0d76F1872D1c112D6e71f3666598314DF'' 7 ''0xA11CE''],
       console = []\<rparr>) \<and>
   vote ethers_lib voter (remote_votable True False 0) 7 True world0 =
     (Inl (Error ''No voting power. You need USDC tokens to vote.''),
      \<lparr>calls = [IsProposalActive ''0xa5070Da0d76F1872D1c112D6e71f3666598314DF'' 7,
                HasUserVoted ''0xa5070Da0d76F1872D1c112D6e71f3666598314DF'' 7 ''0xA11CE'',
                GetVotingPower ''0xa5070Da0d76F1872D1c112D6e71f3666598314DF'' ''0xA11CE''],
       console = []\<rparr>)"
proof (intro conjI)
  have "wallet reader = None"
    by (simp add: reader_def)
  with vote_guard_order [where this = reader and eth = ethers_lib
      and r = "remote_votable True False 5" and proposalId = 7 and support = True and w = world0]
  show "vote ethers_lib reader (remote_votable True False 5) 7 True world0 =
     (Inl (Error ''No private key configured. Set MOLTDAO_PRIVATE_KEY environment variable.''),
      world0)"
    by simp
next
  have "gov_isProposalActive (remote_votable False False 5)
          (governance (network_contracts testnet)) 7 = Inr False"
    by (simp add: remote_votable_def remote_down_def)
  with voter_wallet voter_contracts
    vote_guard_order [where this = voter and wl = "\<lparr>wallet_address = ''0xA11CE''\<rparr>"
      and cs = "network_contracts testnet" and r = "remote_votable False False 5" and proposalId = 7
      and eth = ethers_lib and support = True and w = world0]
  show "vote ethers_lib voter (remote_votable False False 5) 7 True world0 =
     (Inl (Error ''Proposal 7 is not active for voting''),
      \<lparr>calls = [IsProposalActive ''0xa5070Da0d76F1872D1c112D6e71f3666598314DF'' 7],
       console = []\<rparr>)"
    by (simp add: governance_testnet decimal_7 world0_def)
next
  have "gov_isProposalActive (remote_votable True True 5)
          (governance (network_contracts testnet)) 7 = Inr True"
    and "gov_hasUserVoted (remote_votable True True 5)
          (governance (network_contracts testnet)) 7 ''0xA11CE'' = Inr True"
    by (simp_all add: remote_votable_def remote_down_def)
  with voter_wallet voter_contracts
    vote_guard_order [where this = voter and wl = "\<lparr>wallet_address = ''0xA11CE''\<rparr>"
      and cs = "network_contracts testnet" and r = "remote_votable True True 5" and proposalId = 7
      and eth = ethers_lib and support = True and w = world0]
  show "vote ethers_lib voter (remote_votable True True 5) 7 True world0 =
     (Inl (Error ''Already voted on proposal 7''),
      \<lparr>calls = [IsProposalActive ''0xa5070Da0d76F1872D1c112D6e71f3666598314DF'' 7,
                HasUserVoted ''0xa5070Da0d76F1872D1c112D6e71f3666598314DF'' 7 ''0xA11CE''],
       console = []\<rparr>)"
    by (simp add: governance_testnet decimal_7 world0_def)
next
  have "gov_isProposalActive (remote_votable True False 0)
          (governance (network_contracts testnet)) 7 = Inr True"
    and "gov_hasUserVoted (remote_votable True False 0)
          (governance (network_contracts testnet)) 7 ''0xA11CE'' = Inr False"
    and "gov_getVotingPower (remote_votable True False 0)
          (governance (network_contracts testnet)) ''0xA11CE'' = Inr 0"
    by (simp_all add: remote_votable_def remote_down_def)
  with voter_wallet voter_contracts
    vote_guard_order [where this = voter and wl = "\<lparr>wallet_address = ''0xA11CE''\<rparr>"
      and cs = "network_contracts testnet" and r = "remote_votable True False 0" and proposalId = 7
      and eth = ethers_lib and support = True and w = world0]
  show "vote ethers_lib voter (remote_votable True False 0) 7 True world0 =
     (Inl (Error ''No voting power. You need USDC tokens to vote.''),
      \<lparr>calls = [IsProposalActive ''0xa5070Da0d76F1872D1c112D6e71f3666598314DF'' 7,
                HasUserVoted ''0xa5070Da0d76F1872D1c112D6e71f3666598314DF'' 7 ''0xA11CE'',
                GetVotingPower ''0xa5070Da0d76F1872D1c112D6e71f3666598314DF'' ''0xA11CE''],
       console = []\<rparr>)"
    by (simp add: governance_testnet world0_def)
qed

text \<open>
  C3. Let the count be \<open>n\<close> and \<open>F\<close> the ids of \<open>1..n\<close> whose fetch (the
  \<open>try\<close> block) throws. \<open>getProposals\<close> throws nothing; it returns the proposals
  of the other ids in ascending order of \<open>i\<close>, logs one line for each id of \<open>F\<close>,
  in order, and the length of the result is \<open>n - card F\<close>. When the contract numbers
  its proposals \<open>1..n\<close>, the ids of the result are the ids outside \<open>F\<close>, ascending.
\<close>

theorem getProposals_partial_failure:
  assumes "contracts this = Some cs"
    and "gov_proposalCount r (governance cs) = Inr n"
    and "F = {j. 1 \<le> j \<and> j \<le> n \<and> isl (fetch_outcome eth r (governance cs) j)}"
  shows "\<exists>ps w'. getProposals eth this r w = (Inr ps, w') \<and>
           ps = map (\<lambda>j. projr (fetch_outcome eth r (governance cs) j))
                    (filter (\<lambda>j. j \<notin> F) [1..<Suc n]) \<and>
           console w' = console w @
             map (\<lambda>j. (''Error fetching proposal '' @ decimal j @ '':'',
                        message (projl (fetch_outcome eth r (governance cs) j))))
                 (filter (\<lambda>j. j \<in> F) [1..<Suc n]) \<and>
           length ps = n - card F \<and>
           ((\<forall>j p. gov_getProposal r (governance cs) j = Inr p \<longrightarrow> p_id p = j) \<longrightarrow>
              map proposal_id ps = filter (\<lambda>j. j \<notin> F) [1..<Suc n])"
proof -
  let ?g = "governance cs"
  have inF: "filter (\<lambda>j. j \<in> F) [1..<Suc n] = failed_ids eth r ?g n"
    unfolding failed_ids_def assms(3) by (rule filter_cong) auto
  have notF: "filter (\<lambda>j. j \<notin> F) [1..<Suc n] = fetched_ids eth r ?g n"
    unfolding fetched_ids_def assms(3) by (rule filter_cong) auto
  obtain w' where g: "getProposals eth this r w =
      (Inr (map (\<lambda>j. projr (fetch_outcome eth r ?g j)) (fetched_ids eth r ?g n)), w')"
    and c: "console w' = console w @
      map (\<lambda>j. (''Error fetching proposal '' @ decimal j @ '':'',
                 message (projl (fetch_outcome eth r ?g j)))) (failed_ids eth r ?g n)"
    using getProposals_eq [OF assms(1,2), of eth w] by blast
  have len: "length (fetched_ids eth r ?g n) = n - card F"
    using length_fetched_ids [of eth r ?g n] failed_ids_card [of eth r ?g n] assms(3) by simp
  have ids: "map proposal_id (map (\<lambda>j. projr (fetch_outcome eth r ?g j)) (fetched_ids eth r ?g n))
               = fetched_ids eth r ?g n"
    if "\<forall>j p. gov_getProposal r ?g j = Inr p \<longrightarrow> p_id p = j"
  proof -
    have "map (\<lambda>j. proposal_id (projr (fetch_outcome eth r ?g j))) (fetched_ids eth r ?g n)
            = map (\<lambda>j. j) (fetched_ids eth r ?g n)"
      by (rule map_cong) (auto simp: fetched_ids_def fetch_outcome_proposal_id [OF that] simp del: upt_Suc)
    then show ?thesis by (simp add: comp_def)
  qed
  show ?thesis
    using g c len ids unfolding inF notF by auto
qed

theorem getProposals_partial_failure_witness:
  "contracts reader = Some (network_contracts testnet) \<and>
   gov_proposalCount remote_flaky (governance (network_contracts testnet)) = Inr 5 \<and>
   (\<exists>ps w'. getProposals ethers_lib reader remote_flaky world0 = (Inr ps, w') \<and>
      map proposal_id ps = [1, 2, 4, 5] \<and>
      console w' = [(''Error fetching proposal 3:'', ''timeout'')])"
proof -
  let ?g = "governance (network_contracts testnet)"
  have c: "contracts reader = Some (network_contracts testnet)"
    by (simp add: reader_def)
  have n: "gov_proposalCount remote_flaky ?g = Inr 5"
    by (simp add: remote_flaky_def remote_down_def)
  have f: "isl (fetch_outcome ethers_lib remote_flaky ?g j) = (j = 3)" for j
    by (simp add: fetch_outcome_eq remote_flaky_def remote_down_def ethers_lib_def
                  sample_proposal_def sample_result_def formatUnits_3 formatUnits_0)
  have m: "message (projl (fetch_outcome ethers_lib remote_flaky ?g 3)) = ''timeout''"
    by (simp add: fetch_outcome_eq remote_flaky_def remote_down_def)
  have i: "\<forall>j p. gov_getProposal remote_flaky ?g j = Inr p \<longrightarrow> p_id p = j"
    by (simp add: remote_flaky_def remote_down_def sample_proposal_def)
  have u: "[1..<Suc 5] = [1, 2, 3, 4, 5]"
    by (simp add: upt_rec)
  have d: "decimal 3 = ''3''"
    by (simp add: decimal.simps digit_char_def)
  from getProposals_partial_failure [OF c n refl, of ethers_lib world0, unfolded u]
  obtain ps w' where g: "getProposals ethers_lib reader remote_flaky world0 = (Inr ps, w')"
    and l: "console w' = console world0 @
             map (\<lambda>j. (''Error fetching proposal '' @ decimal j @ '':'',
                        message (projl (fetch_outcome ethers_lib remote_flaky ?g j))))
                 (filter (\<lambda>j. j \<in> {j. 1 \<le> j \<and> j \<le> 5 \<and>
                     isl (fetch_outcome ethers_lib remote_flaky ?g j)}) [1, 2, 3, 4, 5])"
    and p: "(\<forall>j p. gov_getProposal remote_flaky ?g j = Inr p \<longrightarrow> p_id p = j) \<longrightarrow>
              map proposal_id ps =
                filter (\<lambda>j. j \<notin> {j. 1 \<le> j \<and> j \<le> 5 \<and>
                     isl (fetch_outcome ethers_lib remote_flaky ?g j)}) [1, 2, 3, 4, 5]"
    by blast
  have a: "map proposal_id ps = [1, 2, 4, 5]"
    using p i by (simp add: f)
  have b: "console w' = [(''Error fetching proposal 3:'', ''timeout'')]"
    using l by (simp add: f m d world0_def)
  have "\<exists>ps w'. getProposals ethers_lib reader remote_flaky world0 = (Inr ps, w') \<and>
      map proposal_id ps = [1, 2, 4, 5] \<and>
      console w' = [(''Error fetching proposal 3:'', ''timeout'')]"
    by (rule exI [of _ ps], rule exI [of _ w']) (simp only: g a b)
  with c n show ?thesis
    by (intro conjI)
qed

text \<open>
  C4. When the wallet is configured, the proposal is active and the signer has not yet
  voted: with a voting power of exactly zero \<open>vote\<close> throws the no-voting-power error
  after the three reads and submits nothing; with any positive voting power the fourth
  call is the vote transaction.
\<close>

theorem vote_power_guard:
  assumes "wallet this = Some wl" and "contracts this = Some cs"
    and "gov_isProposalActive r (governance cs) proposalId = Inr True"
    and "gov_hasUserVoted r (governance cs) proposalId (wallet_address wl) = Inr False"
    and "gov_getVotingPower r (governance cs) (wallet_address wl) = Inr pw"
  shows "(pw = 0 \<longrightarrow>
            vote eth this r proposalId support w =
              (Inl (Error ''No voting power. You need USDC tokens to vote.''),
               w\<lparr>calls := calls w @
                   [IsProposalActive (governance cs) proposalId,
                    HasUserVoted (governance cs) proposalId (wallet_address wl),
                    GetVotingPower (governance cs) (wallet_address wl)]\<rparr>)) \<and>
         (0 < pw \<longrightarrow>
            (\<exists>res rest. vote eth this r proposalId support w =
               (res, w\<lparr>calls := calls w @
                   [IsProposalActive (governance cs) proposalId,
                    HasUserVoted (governance cs) proposalId (wallet_address wl),
                    GetVotingPower (governance cs) (wallet_address wl),
                    Vote (governance cs) (wallet_address wl) proposalId support] @ rest\<rparr>)))"
proof (intro conjI impI)
  assume "pw = 0"
  with assms show "vote eth this r proposalId support w =
              (Inl (Error ''No voting power. You need USDC tokens to vote.''),
               w\<lparr>calls := calls w @
                   [IsProposalActive (governance cs) proposalId,
                    HasUserVoted (governance cs) proposalId (wallet_address wl),
                    GetVotingPower (governance cs) (wallet_address wl)]\<rparr>)"
    by (intro vote_no_power) simp_all
next
  assume "0 < pw"
  with assms show "\<exists>res rest. vote eth this r proposalId support w =
               (res, w\<lparr>calls := calls w @
                   [IsProposalActive (governance cs) proposalId,
                    HasUserVoted (governance cs) proposalId (wallet_address wl),
                    GetVotingPower (governance cs) (wallet_address wl),
                    Vote (governance cs) (wallet_address wl) proposalId support] @ rest\<rparr>)"
    by (intro vote_submits)
qed

theorem vote_power_guard_witness:
  "vote ethers_lib voter (remote_votable True False 0) 7 False world0 =
     (Inl (Error ''No voting power. You need USDC tokens to vote.''),
      \<lparr>calls = [IsProposalActive ''0xa5070Da0d76F1872D1c112D6e71f3666598314DF'' 7,
                HasUserVoted ''0xa5070Da0d76F1872D1c112D6e71f3666598314DF'' 7 ''0xA11CE'',
                GetVotingPower ''0xa5070Da0d76F1872D1c112D6e71f3666598314DF'' ''0xA11CE''],
       console = []\<rparr>) \<and>
   (\<exists>res rest. vote ethers_lib voter (remote_votable True False 1) 7 False world0 =
     (res,
      \<lparr>calls = [IsProposalActive ''0xa5070Da0d76F1872D1c112D6e71f3666598314DF'' 7,
                HasUserVoted ''0xa5070Da0d76F1872D1c112D6e71f3666598314DF'' 7 ''0xA11CE'',
                GetVotingPower ''0xa5070Da0d76F1872D1c112D6e71f3666598314DF'' ''0xA11CE'',
                Vote ''0xa5070Da0d76F1872D1c112D6e71f3666598314DF'' ''0xA11CE'' 7 False] @ rest,
       console = []\<rparr>))"
proof (intro conjI)
  show "vote ethers_lib voter (remote_votable True False 0) 7 False world0 =
     (Inl (Error ''No voting power. You need USDC tokens to vote.''),
      \<lparr>calls = [IsProposalActive ''0xa5070Da0d76F1872D1c112D6e71f3666598314DF'' 7,
                HasUserVoted ''0xa5070Da0d76F1872D1c112D6e71f3666598314DF'' 7 ''0xA11CE'',
                GetVotingPower ''0xa5070Da0d76F1872D1c112D6e71f3666598314DF'' ''0xA11CE''],
       console = []\<rparr>)"
    using vote_power_guard [where r = "remote_votable True False 0" and proposalId = 7
                              and eth = ethers_lib and support = False and w = world0,
                            OF voter_wallet voter_contracts remote_votable_reads]
    by (simp add: governance_testnet world0_def)
next
  show "\<exists>res rest. vote ethers_lib voter (remote_votable True False 1) 7 False world0 =
     (res,
      \<lparr>calls = [IsProposalActive ''0xa5070Da0d76F1872D1c112D6e71f3666598314DF'' 7,
                HasUserVoted ''0xa5070Da0d76F1872D1c112D6e71f3666598314DF'' 7 ''0xA11CE'',
                GetVotingPower ''0xa5070Da0d76F1872D1c112D6e71f3666598314DF'' ''0xA11CE'',
                Vote ''0xa5070Da0d76F1872D1c112D6e71f3666598314DF'' ''0xA11CE'' 7 False] @ rest,
       console = []\<rparr>)"
    using vote_power_guard [where r = "remote_votable True False 1" and proposalId = 7
                              and eth = ethers_lib and support = False and w = world0,
                            OF voter_wallet voter_contracts remote_votable_reads]
    by (simp add: governance_testnet world0_def)
qed

text \<open>
  C5, as the code has it. \<open>donateUSDC\<close> turns the amount 10 into exactly 10000000
  base units, the amount of the transfer it submits. Formatting those units back with
  6 decimals gives \<open>10.0\<close>, which parses to 10000000 again.
\<close>

theorem donate_10_base_units:
  "ethers_parseUnits (decimal 10) 6 = Inr 10000000 \<and>
   ethers_formatUnits 10000000 6 = Inr ''10.0'' \<and>
   ethers_parseUnits ''10.0'' 6 = Inr 10000000 \<and>
   (\<exists>res rest. donateUSDC ethers_lib voter r (decimal 10) w =
      (res, w\<lparr>calls := calls w @
              Transfer ''0x036CbD53842c5426634e7929541eC2318f3dCF7e'' ''0xA11CE''
                       ''0xa5070Da0d76F1872D1c112D6e71f3666598314DF'' 10000000 # rest\<rparr>))"
proof (intro conjI)
  show "ethers_parseUnits (decimal 10) 6 = Inr 10000000"
    by (simp only: decimal_10 parseUnits_10)
  show "ethers_formatUnits 10000000 6 = Inr ''10.0''"
    by (rule formatUnits_10000000_6)
  show "ethers_parseUnits ''10.0'' 6 = Inr 10000000"
    by (rule parseUnits_10_0)
  have n: "network voter = ''testnet''"
    by (simp add: voter_def reader_def)
  have u: "usdc (network_contracts testnet) = Some ''0x036CbD53842c5426634e7929541eC2318f3dCF7e''"
    by (simp add: testnet_def)
  have p: "parseUnits ethers_lib (decimal 10) 6 = Inr 10000000"
    by (simp add: ethers_lib_def decimal_10 parseUnits_10)
  from donateUSDC_transfers [OF n voter_wallet voter_contracts u p, of r w]
  show "\<exists>res rest. donateUSDC ethers_lib voter r (decimal 10) w =
      (res, w\<lparr>calls := calls w @
              Transfer ''0x036CbD53842c5426634e7929541eC2318f3dCF7e'' ''0xA11CE''
                       ''0xa5070Da0d76F1872D1c112D6e71f3666598314DF'' 10000000 # rest\<rparr>)"
    by (simp add: governance_testnet)
qed

theorem donate_10_base_units_witness:
  "donateUSDC ethers_lib voter remote_accepting (decimal 10) world0 =
     (Inr \<lparr>donation_success = True, donation_amount = ''10 USDC'',
           donation_to = ''0xa5070Da0d76F1872D1c112D6e71f3666598314DF'',
           donation_txHash = ''0xfeed'',
           donation_explorer = ''https://sepolia.basescan.org/tx/0xfeed''\<rparr>,
      \<lparr>calls = [Transfer ''0x036CbD53842c5426634e7929541eC2318f3dCF7e'' ''0xA11CE''
                         ''0xa5070Da0d76F1872D1c112D6e71f3666598314DF'' 10000000,
                Wait \<lparr>hash = ''0xfeed''\<rparr>],
       console = []\<rparr>)"
  using donate_10_base_units [of remote_accepting world0]
  by (simp add: donateUSDC_def voter_def reader_def testnet_def ethers_lib_def decimal_10
                parseUnits_10 remote_accepting_def remote_down_def explorer_link_def world0_def)


text \<open>
  The claim C5 as stated fails in its second half: the library never prints a bare
  \<open>10\<close> for 6 decimals.
\<close>

theorem donate_10_round_trip_string:
  "ethers_parseUnits (decimal 10) 6 = Inr 10000000 \<and>
   ethers_formatUnits 10000000 6 \<noteq> Inr ''10''"
  by (simp add: decimal_10 parseUnits_10 formatUnits_10000000_6)

text \<open>
  C6. Without a wallet, \<open>vote\<close>, \<open>donateUSDC\<close> and \<open>createProposal\<close> each throw
  an error that names the missing configuration, and leave the world as it was: no call
  is made. The read functions work without one: \<open>hasVoted\<close> returns the node's
  answer after its one call; \<open>getVotingPower\<close> returns the address, the scaled and
  the raw power after its one call; \<open>getProposals\<close> returns the proposals fetched,
  after the count and the reads of each id; \<open>getTreasury\<close> returns both balances
  after its four reads. None of them looks at the wallet or the key.
\<close>

theorem writes_need_wallet:
  assumes "wallet this = None"
  shows "vote eth this r proposalId support w =
           (Inl (Error
              ''No private key configured. Set MOLTDAO_PRIVATE_KEY environment variable.''), w) \<and>
         donateUSDC eth this r amount w =
           (Inl (Error (if network this \<noteq> ''testnet''
                        then ''USDC donation only available on testnet''
                        else ''No private key configured'')), w) \<and>
         createProposal this r title' description' w =
           (Inl (Error ''No private key configured''), w) \<and>
         getProposals eth this r = getProposals eth (this\<lparr>wallet := x, privateKey := k\<rparr>) r \<and>
         getVotingPower eth this r a =
           getVotingPower eth (this\<lparr>wallet := x, privateKey := k\<rparr>) r a \<and>
         hasVoted this r proposalId a =
           hasVoted (this\<lparr>wallet := x, privateKey := k\<rparr>) r proposalId a \<and>
         getTreasury eth this r = getTreasury eth (this\<lparr>wallet := x, privateKey := k\<rparr>) r \<and>
         (contracts this = Some cs \<longrightarrow>
            hasVoted this r proposalId a w =
              (gov_hasUserVoted r (governance cs) proposalId a,
               w\<lparr>calls := calls w @ [HasUserVoted (governance cs) proposalId a]\<rparr>)) \<and>
         (contracts this = Some cs \<and>
          gov_getVotingPower r (governance cs) a = Inr pw \<and>
          formatUnits eth pw 18 = Inr scaled \<longrightarrow>
            getVotingPower eth this r a w =
              (Inr \<lparr>vp_address = a, votingPower = scaled, raw = decimal pw\<rparr>,
               w\<lparr>calls := calls w @ [GetVotingPower (governance cs) a]\<rparr>)) \<and>
         (contracts this = Some cs \<and> gov_proposalCount r (governance cs) = Inr n \<longrightarrow>
            (\<exists>w'. getProposals eth this r w =
                     (Inr (map (\<lambda>j. projr (fetch_outcome eth r (governance cs) j))
                               (fetched_ids eth r (governance cs) n)), w') \<and>
                   calls w' = calls w @ ProposalCount (governance cs) #
                                concat (map (fetch_calls r (governance cs)) [1..<Suc n]))) \<and>
         (contracts this = Some cs \<and>
          erc20_symbol r (token cs) = Inr sy \<and>
          erc20_decimals r (token cs) = Inr d \<and>
          erc20_balanceOf r (token cs) (splitter cs) = Inr sb \<and>
          formatUnits eth sb d = Inr fs \<and>
          network this = ''testnet'' \<and> usdc cs = Some u \<and> u \<noteq> [] \<and>
          erc20_balanceOf r u (governance cs) = Inr ub \<and>
          formatUnits eth ub 6 = Inr fu \<longrightarrow>
            getTreasury eth this r w =
              (Inr \<lparr>treasury_token = \<lparr>token_address = token cs, token_symbol = sy,
                                        splitterBalance = fs\<rparr>,
                    treasury_usdc = Some (Balance u fu)\<rparr>,
               w\<lparr>calls := calls w @ [Symbol (token cs), Decimals (token cs),
                                      BalanceOf (token cs) (splitter cs),
                                      BalanceOf u (governance cs)]\<rparr>))"
proof (intro conjI impI)
  show "vote eth this r proposalId support w =
           (Inl (Error
              ''No private key configured. Set MOLTDAO_PRIVATE_KEY environment variable.''), w)"
    using assms by (rule vote_no_wallet)
  show "donateUSDC eth this r amount w =
           (Inl (Error (if network this \<noteq> ''testnet''
                        then ''USDC donation only available on testnet''
                        else ''No private key configured'')), w)"
    using assms by (simp add: donateUSDC_def)
  show "createProposal this r title' description' w =
           (Inl (Error ''No private key configured''), w)"
    using assms by (simp add: createProposal_def)
  show "getProposals eth this r = getProposals eth (this\<lparr>wallet := x, privateKey := k\<rparr>) r"
    by (simp only: getProposals_wallet)
  show "getVotingPower eth this r a =
           getVotingPower eth (this\<lparr>wallet := x, privateKey := k\<rparr>) r a"
    by (simp only: getVotingPower_wallet)
  show "hasVoted this r proposalId a =
           hasVoted (this\<lparr>wallet := x, privateKey := k\<rparr>) r proposalId a"
    by (simp only: hasVoted_wallet)
  show "getTreasury eth this r = getTreasury eth (this\<lparr>wallet := x, privateKey := k\<rparr>) r"
    by (simp only: getTreasury_wallet)
next
  assume "contracts this = Some cs"
  then show "hasVoted this r proposalId a w =
              (gov_hasUserVoted r (governance cs) proposalId a,
               w\<lparr>calls := calls w @ [HasUserVoted (governance cs) proposalId a]\<rparr>)"
    by (rule hasVoted_reads)
next
  assume "contracts this = Some cs \<and>
          gov_getVotingPower r (governance cs) a = Inr pw \<and>
          formatUnits eth pw 18 = Inr scaled"
  then show "getVotingPower eth this r a w =
              (Inr \<lparr>vp_address = a, votingPower = scaled, raw = decimal pw\<rparr>,
               w\<lparr>calls := calls w @ [GetVotingPower (governance cs) a]\<rparr>)"
    by (intro getVotingPower_reads) simp_all
next
  assume "contracts this = Some cs \<and> gov_proposalCount r (governance cs) = Inr n"
  then show "\<exists>w'. getProposals eth this r w =
                     (Inr (map (\<lambda>j. projr (fetch_outcome eth r (governance cs) j))
                               (fetched_ids eth r (governance cs) n)), w') \<and>
                   calls w' = calls w @ ProposalCount (governance cs) #
                                concat (map (fetch_calls r (governance cs)) [1..<Suc n])"
    by (intro getProposals_reads) simp_all
next
  assume "contracts this = Some cs \<and>
          erc20_symbol r (token cs) = Inr sy \<and>
          erc20_decimals r (token cs) = Inr d \<and>
          erc20_balanceOf r (token cs) (splitter cs) = Inr sb \<and>
          formatUnits eth sb d = Inr fs \<and>
          network this = ''testnet'' \<and> usdc cs = Some u \<and> u \<noteq> [] \<and>
          erc20_balanceOf r u (governance cs) = Inr ub \<and>
          formatUnits eth ub 6 = Inr fu"
  then show "getTreasury eth this r w =
              (Inr \<lparr>treasury_token = \<lparr>token_address = token cs, token_symbol = sy,
                                        splitterBalance = fs\<rparr>,
                    treasury_usdc = Some (Balance u fu)\<rparr>,
               w\<lparr>calls := calls w @ [Symbol (token cs), Decimals (token cs),
                                      BalanceOf (token cs) (splitter cs),
                                      BalanceOf u (governance cs)]\<rparr>)"
    by (intro getTreasury_usdc_balance [where d = d and sb = sb and ub = ub]) simp_all
qed


theorem writes_need_wallet_witness:
  "new_MoltDAOSkill ethers_lib None \<lparr>config_network = None, config_privateKey = None\<rparr> world0 =
     (Inr reader, \<lparr>calls = [JsonRpcProvider (Some ''https://sepolia.base.org'')], console = []\<rparr>) \<and>
   wallet reader = None \<and>
   vote ethers_lib reader remote_readable 1 True world0 =
     (Inl (Error ''No private key configured. Set MOLTDAO_PRIVATE_KEY environment variable.''),
      world0) \<and>
   donateUSDC ethers_lib reader remote_readable ''10'' world0 =
     (Inl (Error ''No private key configured''), world0) \<and>
   createProposal reader remote_readable ''Fund'' ''Grant'' world0 =
     (Inl (Error ''No private key configured''), world0) \<and>
   getProposals ethers_lib reader remote_readable = getProposals ethers_lib voter remote_readable \<and>
   hasVoted reader remote_readable 1 ''0xA11CE'' world0 =
     (Inr False,
      \<lparr>calls = [HasUserVoted ''0xa5070Da0d76F1872D1c112D6e71f3666598314DF'' 1 ''0xA11CE''],
       console = []\<rparr>) \<and>
   getVotingPower ethers_lib reader remote_readable ''0xA11CE'' world0 =
     (Inr \<lparr>vp_address = ''0xA11CE'', votingPower = ''3.0'', raw = ''3000000000000000000''\<rparr>,
      \<lparr>calls = [GetVotingPower ''0xa5070Da0d76F1872D1c112D6e71f3666598314DF'' ''0xA11CE''],
       console = []\<rparr>) \<and>
   (\<exists>w'. getProposals ethers_lib reader remote_readable world0 =
      (Inr [\<lparr>proposal_id = 1, title = ''Fund'', description = ''Grant'',
             startTime = 1700000000000, endTime = 1700086400000,
             yesVotes = ''3.0'', noVotes = ''0.0'', cancelled = False,
             status = Some ''Active'', isActive = True, passed = False,
             totalVotes = ''3.0''\<rparr>], w') \<and>
      calls w' = [ProposalCount ''0xa5070Da0d76F1872D1c112D6e71f3666598314DF'',
                  GetProposal ''0xa5070Da0d76F1872D1c112D6e71f3666598314DF'' 1,
                  GetProposalResult ''0xa5070Da0d76F1872D1c112D6e71f3666598314DF'' 1,
                  IsProposalActive ''0xa5070Da0d76F1872D1c112D6e71f3666598314DF'' 1]) \<and>
   getTreasury ethers_lib reader remote_readable world0 =
     (Inr \<lparr>treasury_token = \<lparr>token_address = ''0x036CbD53842c5426634e7929541eC2318f3dCF7e'',
                               token_symbol = ''USDC'', splitterBalance = ''1.2345''\<rparr>,
           treasury_usdc = Some (Balance ''0x036CbD53842c5426634e7929541eC2318f3dCF7e''
                                         ''1.2345'')\<rparr>,
      \<lparr>calls = [Symbol ''0x036CbD53842c5426634e7929541eC2318f3dCF7e'',
                Decimals ''0x036CbD53842c5426634e7929541eC2318f3dCF7e'',
                BalanceOf ''0x036CbD53842c5426634e7929541eC2318f3dCF7e''
                          ''0xcf9933743D2312ea1383574907cF1A9c6fE4808d'',
                BalanceOf ''0x036CbD53842c5426634e7929541eC2318f3dCF7e''
                          ''0xa5070Da0d76F1872D1c112D6e71f3666598314DF''],
       console = []\<rparr>)"
proof -
  let ?cs = "network_contracts testnet"
  let ?g = "governance ?cs"
  let ?u = "''0x036CbD53842c5426634e7929541eC2318f3dCF7e''"
  have n: "wallet reader = None"
    and t: "network reader = ''testnet''"
    and c: "contracts reader = Some ?cs"
    by (simp_all add: reader_def)
  have v: "voter = reader\<lparr>wallet := Some \<lparr>wallet_address = ''0xA11CE''\<rparr>,
                          privateKey := Some ''0x01''\<rparr>"
    by (simp add: voter_def)
  have hv: "gov_hasUserVoted remote_readable g i a = Inr False" for g i a
    by (simp add: remote_readable_def remote_down_def)
  have vp: "gov_getVotingPower remote_readable ?g ''0xA11CE'' = Inr 3000000000000000000"
    and pc: "gov_proposalCount remote_readable ?g = Inr 1"
    and sy: "erc20_symbol remote_readable (token ?cs) = Inr ''USDC''"
    and de: "erc20_decimals remote_readable (token ?cs) = Inr 6"
    and sb: "erc20_balanceOf remote_readable (token ?cs) (splitter ?cs) = Inr 1234500"
    and ub: "erc20_balanceOf remote_readable ?u ?g = Inr 1234500"
    by (simp_all add: remote_readable_def remote_down_def)
  have f18: "formatUnits ethers_lib 3000000000000000000 18 = Inr ''3.0''"
    and f6: "formatUnits ethers_lib 1234500 6 = Inr ''1.2345''"
    by (simp_all add: ethers_lib_def formatUnits_3 formatUnits_1234500_6)
  have us: "usdc ?cs = Some ?u" and une: "?u \<noteq> []"
    by (simp_all add: testnet_def)
  note T = writes_need_wallet [OF n, where eth = ethers_lib and r = remote_readable
              and proposalId = 1 and support = True and w = world0 and amount = "''10''"
              and title' = "''Fund''" and description' = "''Grant''"
              and x = "Some \<lparr>wallet_address = ''0xA11CE''\<rparr>" and k = "Some ''0x01''"
              and a = "''0xA11CE''" and cs = ?cs and pw = 3000000000000000000
              and scaled = "''3.0''" and n = 1 and sy = "''USDC''" and d = 6
              and sb = 1234500 and fs = "''1.2345''" and u = ?u and ub = 1234500
              and fu = "''1.2345''"]
  have w1: "vote ethers_lib reader remote_readable 1 True world0 =
     (Inl (Error ''No private key configured. Set MOLTDAO_PRIVATE_KEY environment variable.''),
      world0)"
    using T by (rule conjunct1)
  note T2 = T [THEN conjunct2]
  have w2: "donateUSDC ethers_lib reader remote_readable ''10'' world0 =
     (Inl (Error ''No private key configured''), world0)"
    using T2 [THEN conjunct1] by (simp add: t)
  note T3 = T2 [THEN conjunct2]
  have w3: "createProposal reader remote_readable ''Fund'' ''Grant'' world0 =
     (Inl (Error ''No private key configured''), world0)"
    using T3 by (rule conjunct1)
  note T4 = T3 [THEN conjunct2]
  have w4: "getProposals ethers_lib reader remote_readable =
            getProposals ethers_lib voter remote_readable"
    using T4 [THEN conjunct1] by (simp only: v)
  note T8 = T4 [THEN conjunct2, THEN conjunct2, THEN conjunct2, THEN conjunct2]
  have w8: "hasVoted reader remote_readable 1 ''0xA11CE'' world0 =
     (Inr False,
      \<lparr>calls = [HasUserVoted ''0xa5070Da0d76F1872D1c112D6e71f3666598314DF'' 1 ''0xA11CE''],
       console = []\<rparr>)"
    using T8 [THEN conjunct1, rule_format, OF c]
    by (simp add: hv governance_testnet world0_def)
  note T9 = T8 [THEN conjunct2]
  have w9: "getVotingPower ethers_lib reader remote_readable ''0xA11CE'' world0 =
     (Inr \<lparr>vp_address = ''0xA11CE'', votingPower = ''3.0'', raw = ''3000000000000000000''\<rparr>,
      \<lparr>calls = [GetVotingPower ''0xa5070Da0d76F1872D1c112D6e71f3666598314DF'' ''0xA11CE''],
       console = []\<rparr>)"
    using T9 [THEN conjunct1, rule_format, OF conjI [OF c conjI [OF vp f18]]]
    by (simp add: governance_testnet world0_def decimal_3e18)
  note T10 = T9 [THEN conjunct2]
  have fo: "fetch_outcome ethers_lib remote_readable ?g j =
      Inr \<lparr>proposal_id = j, title = ''Fund'', description = ''Grant'',
             startTime = 1700000000000, endTime = 1700086400000,
             yesVotes = ''3.0'', noVotes = ''0.0'', cancelled = False,
             status = Some ''Active'', isActive = True, passed = False,
             totalVotes = ''3.0''\<rparr>" for j
    by (simp add: fetch_outcome_eq remote_readable_def remote_down_def ethers_lib_def
                  sample_proposal_def sample_result_def formatUnits_3 formatUnits_0
                  js_index_def status_labels_def)
  have fc: "fetch_calls remote_readable ?g j =
      [GetProposal ?g j, GetProposalResult ?g j, IsProposalActive ?g j]" for j
    by (simp add: fetch_calls_def remote_readable_def remote_down_def)
  have u1: "[1..<Suc 1] = [1]"
    by simp
  from T10 [THEN conjunct1, rule_format, OF conjI [OF c pc]]
  obtain w' where g1: "getProposals ethers_lib reader remote_readable world0 =
        (Inr (map (\<lambda>j. projr (fetch_outcome ethers_lib remote_readable ?g j))
                  (fetched_ids ethers_lib remote_readable ?g 1)), w')"
    and g2: "calls w' = calls world0 @ ProposalCount ?g #
               concat (map (fetch_calls remote_readable ?g) [1..<Suc 1])"
    by (elim exE conjE)
  have ids: "fetched_ids ethers_lib remote_readable ?g 1 = [1]"
    unfolding fetched_ids_def u1 by (simp add: fo)
  have w10: "\<exists>w'. getProposals ethers_lib reader remote_readable world0 =
      (Inr [\<lparr>proposal_id = 1, title = ''Fund'', description = ''Grant'',
             startTime = 1700000000000, endTime = 1700086400000,
             yesVotes = ''3.0'', noVotes = ''0.0'', cancelled = False,
             status = Some ''Active'', isActive = True, passed = False,
             totalVotes = ''3.0''\<rparr>], w') \<and>
      calls w' = [ProposalCount ''0xa5070Da0d76F1872D1c112D6e71f3666598314DF'',
                  GetProposal ''0xa5070Da0d76F1872D1c112D6e71f3666598314DF'' 1,
                  GetProposalResult ''0xa5070Da0d76F1872D1c112D6e71f3666598314DF'' 1,
                  IsProposalActive ''0xa5070Da0d76F1872D1c112D6e71f3666598314DF'' 1]"
    using g1 g2 unfolding ids u1
    by (intro exI [of _ w'])
       (simp add: fo [unfolded governance_testnet] fc [unfolded governance_testnet]
                  governance_testnet world0_def)
  note T11 = T10 [THEN conjunct2]
  have h: "contracts reader = Some ?cs \<and>
          erc20_symbol remote_readable (token ?cs) = Inr ''USDC'' \<and>
          erc20_decimals remote_readable (token ?cs) = Inr 6 \<and>
          erc20_balanceOf remote_readable (token ?cs) (splitter ?cs) = Inr 1234500 \<and>
          formatUnits ethers_lib 1234500 6 = Inr ''1.2345'' \<and>
          network reader = ''testnet'' \<and> usdc ?cs = Some ?u \<and> ?u \<noteq> [] \<and>
          erc20_balanceOf remote_readable ?u ?g = Inr 1234500 \<and>
          formatUnits ethers_lib 1234500 6 = Inr ''1.2345''"
    using c sy de sb f6 t us une ub by (intro conjI)
  have w11: "getTreasury ethers_lib reader remote_readable world0 =
     (Inr \<lparr>treasury_token = \<lparr>token_address = ''0x036CbD53842c5426634e7929541eC2318f3dCF7e'',
                               token_symbol = ''USDC'', splitterBalance = ''1.2345''\<rparr>,
           treasury_usdc = Some (Balance ''0x036CbD53842c5426634e7929541eC2318f3dCF7e''
                                         ''1.2345'')\<rparr>,
      \<lparr>calls = [Symbol ''0x036CbD53842c5426634e7929541eC2318f3dCF7e'',
                Decimals ''0x036CbD53842c5426634e7929541eC2318f3dCF7e'',
                BalanceOf ''0x036CbD53842c5426634e7929541eC2318f3dCF7e''
                          ''0xcf9933743D2312ea1383574907cF1A9c6fE4808d'',
                BalanceOf ''0x036CbD53842c5426634e7929541eC2318f3dCF7e''
                          ''0xa5070Da0d76F1872D1c112D6e71f3666598314DF''],
       console = []\<rparr>)"
    using T11 [rule_format, OF h] by (simp add: testnet_def world0_def)
  from new_MoltDAOSkill_reader n w1 w2 w3 w4 w8 w9 w10 w11 show ?thesis
    by (intro conjI)
qed

text \<open>
  C7. When the token reads succeed: on testnet with a \<open>usdc\<close> contract whose
  balance read fails, \<open>getTreasury\<close> still returns the token's address, symbol and
  splitter balance, and its \<open>usdc\<close> field is the object holding the error's message;
  with no \<open>usdc\<close> contract configured the result has no \<open>usdc\<close> field at all,
  and no fourth read is made.
\<close>

theorem getTreasury_secondary_asset:
  assumes "contracts this = Some cs"
    and "erc20_symbol r (token cs) = Inr sy"
    and "erc20_decimals r (token cs) = Inr d"
    and "erc20_balanceOf r (token cs) (splitter cs) = Inr sb"
    and "formatUnits eth sb d = Inr fs"
  shows "(network this = ''testnet'' \<and> usdc cs = Some u \<and> u \<noteq> [] \<and>
          erc20_balanceOf r u (governance cs) = Inl e \<longrightarrow>
            getTreasury eth this r w =
              (Inr \<lparr>treasury_token = \<lparr>token_address = token cs, token_symbol = sy,
                                        splitterBalance = fs\<rparr>,
                    treasury_usdc = Some (Failed (message e))\<rparr>,
               w\<lparr>calls := calls w @ [Symbol (token cs), Decimals (token cs),
                                      BalanceOf (token cs) (splitter cs),
                                      BalanceOf u (governance cs)]\<rparr>)) \<and>
         (usdc cs = None \<longrightarrow>
            getTreasury eth this r w =
              (Inr \<lparr>treasury_token = \<lparr>token_address = token cs, token_symbol = sy,
                                        splitterBalance = fs\<rparr>,
                    treasury_usdc = None\<rparr>,
               w\<lparr>calls := calls w @ [Symbol (token cs), Decimals (token cs),
                                      BalanceOf (token cs) (splitter cs)]\<rparr>))"
proof (intro conjI impI)
  assume "network this = ''testnet'' \<and> usdc cs = Some u \<and> u \<noteq> [] \<and>
          erc20_balanceOf r u (governance cs) = Inl e"
  with assms show "getTreasury eth this r w =
              (Inr \<lparr>treasury_token = \<lparr>token_address = token cs, token_symbol = sy,
                                        splitterBalance = fs\<rparr>,
                    treasury_usdc = Some (Failed (message e))\<rparr>,
               w\<lparr>calls := calls w @ [Symbol (token cs), Decimals (token cs),
                                      BalanceOf (token cs) (splitter cs),
                                      BalanceOf u (governance cs)]\<rparr>)"
    by (intro getTreasury_usdc_failed) simp_all
next
  assume "usdc cs = None"
  then have "\<not> (network this = ''testnet'' \<and> truthy (usdc cs))"
    by (simp add: truthy_def)
  with assms show "getTreasury eth this r w =
              (Inr \<lparr>treasury_token = \<lparr>token_address = token cs, token_symbol = sy,
                                        splitterBalance = fs\<rparr>,
                    treasury_usdc = None\<rparr>,
               w\<lparr>calls := calls w @ [Symbol (token cs), Decimals (token cs),
                                      BalanceOf (token cs) (splitter cs)]\<rparr>)"
    by (intro getTreasury_without_usdc)
qed

theorem getTreasury_secondary_asset_witness:
  "getTreasury ethers_lib reader (remote_treasury 6 (Inl (Error ''timeout''))) world0 =
     (Inr \<lparr>treasury_token = \<lparr>token_address = ''0x036CbD53842c5426634e7929541eC2318f3dCF7e'',
                               token_symbol = ''USDC'', splitterBalance = ''1.2345''\<rparr>,
           treasury_usdc = Some (Failed ''timeout'')\<rparr>,
      \<lparr>calls = [Symbol ''0x036CbD53842c5426634e7929541eC2318f3dCF7e'',
                Decimals ''0x036CbD53842c5426634e7929541eC2318f3dCF7e'',
                BalanceOf ''0x036CbD53842c5426634e7929541eC2318f3dCF7e''
                          ''0xcf9933743D2312ea1383574907cF1A9c6fE4808d'',
                BalanceOf ''0x036CbD53842c5426634e7929541eC2318f3dCF7e''
                          ''0xa5070Da0d76F1872D1c112D6e71f3666598314DF''],
       console = []\<rparr>) \<and>
   getTreasury ethers_lib no_usdc_skill (remote_treasury 6 (Inr 2500000)) world0 =
     (Inr \<lparr>treasury_token = \<lparr>token_address = ''0x036CbD53842c5426634e7929541eC2318f3dCF7e'',
                               token_symbol = ''USDC'', splitterBalance = ''1.2345''\<rparr>,
           treasury_usdc = None\<rparr>,
      \<lparr>calls = [Symbol ''0x036CbD53842c5426634e7929541eC2318f3dCF7e'',
                Decimals ''0x036CbD53842c5426634e7929541eC2318f3dCF7e'',
                BalanceOf ''0x036CbD53842c5426634e7929541eC2318f3dCF7e''
                          ''0xcf9933743D2312ea1383574907cF1A9c6fE4808d''],
       console = []\<rparr>)"
proof (intro conjI)
  let ?cs = "network_contracts testnet"
  let ?r = "remote_treasury 6 (Inl (Error ''timeout''))"
  have c: "contracts reader = Some ?cs"
    by (simp add: reader_def)
  have s: "erc20_symbol ?r (token ?cs) = Inr ''USDC''"
    and d: "erc20_decimals ?r (token ?cs) = Inr 6"
    and b: "erc20_balanceOf ?r (token ?cs) (splitter ?cs) = Inr 1234500"
    by (simp_all add: remote_treasury_def remote_down_def testnet_def)
  have f: "formatUnits ethers_lib 1234500 6 = Inr ''1.2345''"
    by (simp add: ethers_lib_def formatUnits_1234500_6)
  have h: "network reader = ''testnet'' \<and>
           usdc ?cs = Some ''0x036CbD53842c5426634e7929541eC2318f3dCF7e'' \<and>
           ''0x036CbD53842c5426634e7929541eC2318f3dCF7e'' \<noteq> [] \<and>
           erc20_balanceOf ?r ''0x036CbD53842c5426634e7929541eC2318f3dCF7e'' (governance ?cs)
             = Inl (Error ''timeout'')"
    by (simp add: reader_def testnet_def remote_treasury_def remote_down_def)
  from getTreasury_secondary_asset [OF c s d b f, THEN conjunct1, rule_format, OF h, of world0]
  show "getTreasury ethers_lib reader ?r world0 =
     (Inr \<lparr>treasury_token = \<lparr>token_address = ''0x036CbD53842c5426634e7929541eC2318f3dCF7e'',
                               token_symbol = ''USDC'', splitterBalance = ''1.2345''\<rparr>,
           treasury_usdc = Some (Failed ''timeout'')\<rparr>,
      \<lparr>calls = [Symbol ''0x036CbD53842c5426634e7929541eC2318f3dCF7e'',
                Decimals ''0x036CbD53842c5426634e7929541eC2318f3dCF7e'',
                BalanceOf ''0x036CbD53842c5426634e7929541eC2318f3dCF7e''
                          ''0xcf9933743D2312ea1383574907cF1A9c6fE4808d'',
                BalanceOf ''0x036CbD53842c5426634e7929541eC2318f3dCF7e''
                          ''0xa5070Da0d76F1872D1c112D6e71f3666598314DF''],
       console = []\<rparr>)"
    by (simp add: testnet_def world0_def)
next
  let ?cs = "(network_contracts testnet)\<lparr>usdc := None\<rparr>"
  let ?r = "remote_treasury 6 (Inr 2500000)"
  have c: "contracts no_usdc_skill = Some ?cs"
    by (simp add: no_usdc_skill_def)
  have s: "erc20_symbol ?r (token ?cs) = Inr ''USDC''"
    and d: "erc20_decimals ?r (token ?cs) = Inr 6"
    and b: "erc20_balanceOf ?r (token ?cs) (splitter ?cs) = Inr 1234500"
    by (simp_all add: remote_treasury_def remote_down_def testnet_def)
  have f: "formatUnits ethers_lib 1234500 6 = Inr ''1.2345''"
    by (simp add: ethers_lib_def formatUnits_1234500_6)
  have h: "usdc ?cs = None"
    by simp
  from getTreasury_secondary_asset [OF c s d b f, THEN conjunct2, rule_format, OF h, of world0]
  show "getTreasury ethers_lib no_usdc_skill ?r world0 =
     (Inr \<lparr>treasury_token = \<lparr>token_address = ''0x036CbD53842c5426634e7929541eC2318f3dCF7e'',
                               token_symbol = ''USDC'', splitterBalance = ''1.2345''\<rparr>,
           treasury_usdc = None\<rparr>,
      \<lparr>calls = [Symbol ''0x036CbD53842c5426634e7929541eC2318f3dCF7e'',
                Decimals ''0x036CbD53842c5426634e7929541eC2318f3dCF7e'',
                BalanceOf ''0x036CbD53842c5426634e7929541eC2318f3dCF7e''
                          ''0xcf9933743D2312ea1383574907cF1A9c6fE4808d''],
       console = []\<rparr>)"
    by (simp add: testnet_def world0_def)
qed

text \<open>
  C8, as the code has it. A non-empty network selector that is neither \<open>testnet\<close> nor
  the name of a property every object inherits makes the constructor throw a
  \<open>TypeError\<close> when it reads \<open>networkConfig.rpc\<close>: before the provider is built,
  with no call made.
\<close>

theorem constructor_unknown_network:
  assumes "selector \<noteq> []" and "selector \<noteq> ''testnet''"
    and "selector \<notin> set Object_prototype_keys"
  shows "new_MoltDAOSkill eth env_key
           \<lparr>config_network = Some selector, config_privateKey = key\<rparr> w =
         (Inl (TypeError ''Cannot read properties of undefined (reading rpc)''), w)"
  using assms by (simp add: new_MoltDAOSkill_def js_or_def truthy_def NETWORKS_def)

theorem constructor_unknown_network_witness:
  "''mainnet'' \<noteq> [] \<and> ''mainnet'' \<noteq> ''testnet'' \<and> ''mainnet'' \<notin> set Object_prototype_keys \<and>
   new_MoltDAOSkill ethers_lib None
     \<lparr>config_network = Some ''mainnet'', config_privateKey = None\<rparr> world0 =
   (Inl (TypeError ''Cannot read properties of undefined (reading rpc)''), world0)"
proof -
  have a: "''mainnet'' \<noteq> []" by simp
  have b: "''mainnet'' \<noteq> ''testnet''" by simp
  have c: "''mainnet'' \<notin> set Object_prototype_keys"
    by (simp add: Object_prototype_keys_def)
  show ?thesis
    using a b c constructor_unknown_network [OF a b c, of ethers_lib None None world0]
    by simp
qed

text \<open>
  The claim C8 as stated fails: \<open>constructor\<close> is not a supported network, yet
  \<open>NETWORKS['constructor']\<close> is the inherited \<open>Object\<close> function, so nothing
  throws: the skill is built with a provider for no URL and without contracts.
\<close>

theorem constructor_inherited_key:
  "''constructor'' \<noteq> ''testnet'' \<and>
   new_MoltDAOSkill ethers_lib None
     \<lparr>config_network = Some ''constructor'', config_privateKey = None\<rparr> world0 =
   (Inr \<lparr>network = ''constructor'', privateKey = None, contracts = None,
         explorer = None, wallet = None\<rparr>,
    \<lparr>calls = [JsonRpcProvider None], console = []\<rparr>)"
  by (simp add: new_MoltDAOSkill_def js_or_def truthy_def NETWORKS_def Object_prototype_keys_def
                ethers_lib_def world0_def Let_def)

text \<open>
  C9. \<open>getProposals\<close> against a governance contract that reports a proposal count
  of 0 returns the empty list and throws nothing: the only call made is the count.
\<close>

theorem getProposals_count_zero:
  assumes "contracts this = Some cs" and "gov_proposalCount r (governance cs) = Inr 0"
  shows "getProposals eth this r w =
           (Inr [], w\<lparr>calls := calls w @ [ProposalCount (governance cs)]\<rparr>)"
  using assms by (simp add: getProposals_def getProposals_loop.simps)

theorem getProposals_count_zero_witness:
  "contracts reader = Some (network_contracts testnet) \<and>
   gov_proposalCount remote_empty (governance (network_contracts testnet)) = Inr 0 \<and>
   getProposals ethers_lib reader remote_empty world0 =
     (Inr [], \<lparr>calls = [ProposalCount ''0xa5070Da0d76F1872D1c112D6e71f3666598314DF''],
               console = []\<rparr>)"
proof -
  have c: "contracts reader = Some (network_contracts testnet)"
    by (simp add: reader_def)
  have n: "gov_proposalCount remote_empty (governance (network_contracts testnet)) = Inr 0"
    by (simp add: remote_empty_def remote_down_def)
  show ?thesis
    using c n getProposals_count_zero [OF c n, of ethers_lib world0]
    by (simp add: world0_def testnet_def)
qed

text \<open>
  C10. On testnet with a \<open>usdc\<close> contract and all reads succeeding,
  \<open>getTreasury\<close> formats the splitter balance with the decimals \<open>d\<close> it read from
  the token contract, and the \<open>usdc\<close> balance with the constant 6, whatever decimals
  \<open>du\<close> the \<open>usdc\<close> contract has: the only decimals read are the token's. Whenever
  \<open>du\<close> is not 6, the library's printing with 6 decimals is another rule than its
  printing with \<open>du\<close> (they differ on the amount 1), and for every positive balance
  the \<open>usdc\<close> field returned is not what that balance prints to with the contract's
  own decimals. (A zero balance prints alike under both.)
\<close>

theorem getTreasury_scaling:
  assumes "contracts this = Some cs"
    and "network this = ''testnet''" and "usdc cs = Some u" and "u \<noteq> []"
    and "erc20_symbol r (token cs) = Inr sy"
    and "erc20_decimals r (token cs) = Inr d"
    and "erc20_balanceOf r (token cs) (splitter cs) = Inr sb"
    and "erc20_balanceOf r u (governance cs) = Inr ub"
    and "formatUnits eth sb d = Inr fs"
    and "formatUnits eth ub 6 = Inr fu"
    and "erc20_decimals r u = Inr du"
  shows "getTreasury eth this r w =
           (Inr \<lparr>treasury_token = \<lparr>token_address = token cs, token_symbol = sy,
                                     splitterBalance = fs\<rparr>,
                 treasury_usdc = Some (Balance u fu)\<rparr>,
            w\<lparr>calls := calls w @ [Symbol (token cs), Decimals (token cs),
                                   BalanceOf (token cs) (splitter cs),
                                   BalanceOf u (governance cs)]\<rparr>) \<and>
         (du \<noteq> 6 \<longrightarrow> ethers_formatUnits 1 du \<noteq> ethers_formatUnits 1 6) \<and>
         (du \<noteq> 6 \<and> 0 < ub \<and> formatUnits eth = ethers_formatUnits \<longrightarrow>
            formatUnits eth ub du \<noteq> Inr fu)"
proof (intro conjI impI)
  from assms show "getTreasury eth this r w =
           (Inr \<lparr>treasury_token = \<lparr>token_address = token cs, token_symbol = sy,
                                     splitterBalance = fs\<rparr>,
                 treasury_usdc = Some (Balance u fu)\<rparr>,
            w\<lparr>calls := calls w @ [Symbol (token cs), Decimals (token cs),
                                   BalanceOf (token cs) (splitter cs),
                                   BalanceOf u (governance cs)]\<rparr>)"
    by (intro getTreasury_usdc_balance [where d = d and sb = sb and ub = ub])
next
  assume "du \<noteq> 6"
  then show "ethers_formatUnits 1 du \<noteq> ethers_formatUnits 1 6"
    by (rule formatUnits_rule_differs)
next
  assume a: "du \<noteq> 6 \<and> 0 < ub \<and> formatUnits eth = ethers_formatUnits"
  then have six: "ethers_formatUnits ub 6 = Inr fu"
    using assms(10) by simp
  show "formatUnits eth ub du \<noteq> Inr fu"
  proof
    assume "formatUnits eth ub du = Inr fu"
    with a have "ethers_formatUnits ub du = Inr fu"
      by simp
    from formatUnits_scale_differs [OF _ _ this] a have "ethers_formatUnits ub 6 \<noteq> Inr fu"
      by simp
    with six show False
      by (rule notE [rotated])
  qed
qed

theorem getTreasury_scaling_witness:
  "getTreasury ethers_lib reader (remote_treasury 18 (Inr 1234500)) world0 =
     (Inr \<lparr>treasury_token = \<lparr>token_address = ''0x036CbD53842c5426634e7929541eC2318f3dCF7e'',
                               token_symbol = ''USDC'',
                               splitterBalance = ''0.0000000000012345''\<rparr>,
           treasury_usdc = Some (Balance ''0x036CbD53842c5426634e7929541eC2318f3dCF7e''
                                         ''1.2345'')\<rparr>,
      \<lparr>calls = [Symbol ''0x036CbD53842c5426634e7929541eC2318f3dCF7e'',
                Decimals ''0x036CbD53842c5426634e7929541eC2318f3dCF7e'',
                BalanceOf ''0x036CbD53842c5426634e7929541eC2318f3dCF7e''
                          ''0xcf9933743D2312ea1383574907cF1A9c6fE4808d'',
                BalanceOf ''0x036CbD53842c5426634e7929541eC2318f3dCF7e''
                          ''0xa5070Da0d76F1872D1c112D6e71f3666598314DF''],
       console = []\<rparr>) \<and>
   erc20_decimals (remote_treasury 18 (Inr 1234500))
     ''0x036CbD53842c5426634e7929541eC2318f3dCF7e'' = Inr 18 \<and>
   (18::nat) \<noteq> 6 \<and> (0::nat) < 1234500 \<and>
   formatUnits ethers_lib = ethers_formatUnits \<and>
   ethers_formatUnits 1 18 \<noteq> ethers_formatUnits 1 6 \<and>
   formatUnits ethers_lib 1234500 18 \<noteq> Inr ''1.2345''"
proof -
  let ?cs = "network_contracts testnet"
  let ?r = "remote_treasury 18 (Inr 1234500)"
  let ?u = "''0x036CbD53842c5426634e7929541eC2318f3dCF7e''"
  have c: "contracts reader = Some ?cs"
    and n: "network reader = ''testnet''"
    by (simp_all add: reader_def)
  have u: "usdc ?cs = Some ?u" and ne: "?u \<noteq> []"
    by (simp_all add: testnet_def)
  have s: "erc20_symbol ?r (token ?cs) = Inr ''USDC''"
    and d: "erc20_decimals ?r (token ?cs) = Inr 18"
    and b: "erc20_balanceOf ?r (token ?cs) (splitter ?cs) = Inr 1234500"
    and g: "erc20_balanceOf ?r ?u (governance ?cs) = Inr 1234500"
    and du: "erc20_decimals ?r ?u = Inr 18"
    by (simp_all add: remote_treasury_def remote_down_def testnet_def)
  have f: "formatUnits ethers_lib 1234500 18 = Inr ''0.0000000000012345''"
    and f6: "formatUnits ethers_lib 1234500 6 = Inr ''1.2345''"
    by (simp_all add: ethers_lib_def formatUnits_1234500_18 formatUnits_1234500_6)
  have lib: "formatUnits ethers_lib = ethers_formatUnits"
    by (simp add: ethers_lib_def)
  note t = getTreasury_scaling [OF c n u ne s d b g f f6 du, where w = world0]
  have h2: "(18::nat) \<noteq> 6"
    by simp
  have h3: "(18::nat) \<noteq> 6 \<and> (0::nat) < 1234500 \<and> formatUnits ethers_lib = ethers_formatUnits"
    using lib by simp
  from t [THEN conjunct2, THEN conjunct1, rule_format, OF h2]
  have x: "ethers_formatUnits 1 18 \<noteq> ethers_formatUnits 1 6" .
  from t [THEN conjunct2, THEN conjunct2, rule_format, OF h3]
  have z: "formatUnits ethers_lib 1234500 18 \<noteq> Inr ''1.2345''" .
  from t [THEN conjunct1]
  have y: "getTreasury ethers_lib reader ?r world0 =
     (Inr \<lparr>treasury_token = \<lparr>token_address = ''0x036CbD53842c5426634e7929541eC2318f3dCF7e'',
                               token_symbol = ''USDC'',
                               splitterBalance = ''0.0000000000012345''\<rparr>,
           treasury_usdc = Some (Balance ''0x036CbD53842c5426634e7929541eC2318f3dCF7e''
                                         ''1.2345'')\<rparr>,
      \<lparr>calls = [Symbol ''0x036CbD53842c5426634e7929541eC2318f3dCF7e'',
                Decimals ''0x036CbD53842c5426634e7929541eC2318f3dCF7e'',
                BalanceOf ''0x036CbD53842c5426634e7929541eC2318f3dCF7e''
                          ''0xcf9933743D2312ea1383574907cF1A9c6fE4808d'',
                BalanceOf ''0x036CbD53842c5426634e7929541eC2318f3dCF7e''
                          ''0xa5070Da0d76F1872D1c112D6e71f3666598314DF''],
       console = []\<rparr>)"
    by (simp add: testnet_def world0_def)
  have p: "(0::nat) < 1234500"
    by simp
  from y du h2 p lib x z show ?thesis
    by (intro conjI)
qed

end
